theory Spec2Isabelle
  imports Complex_Main
begin

section \<open>JavaScript values used by the price tracker\<close>

text \<open>
  A JavaScript string is a sequence of UTF-16 code units; \<open>length\<close>, \<open>trim\<close>, \<open>includes\<close>
  and the regular expressions of the sources all work on code units, so a string is
  modelled as a list of code units (natural numbers below 65536).  The rupee sign is the
  single code unit U+20B9.
\<close>

type_synonym jstring = "nat list"

definition cu :: "char \<Rightarrow> nat" where
  "cu c = of_char c"

definition js :: "string \<Rightarrow> jstring" where
  "js s = map cu s"

definition RUPEE :: nat where
  "RUPEE = 8377"

text \<open>The regular-expression classes \<open>\d\<close>, \<open>\w\<close> and \<open>\s\<close> (the latter is also the set
  removed by \<open>String.prototype.trim\<close>).\<close>

definition isDigit :: "nat \<Rightarrow> bool" where
  "isDigit c = (48 \<le> c \<and> c \<le> 57)"

definition isLower :: "nat \<Rightarrow> bool" where
  "isLower c = (97 \<le> c \<and> c \<le> 122)"

definition isUpper :: "nat \<Rightarrow> bool" where
  "isUpper c = (65 \<le> c \<and> c \<le> 90)"

definition isWordChar :: "nat \<Rightarrow> bool" where
  "isWordChar c = (isDigit c \<or> isLower c \<or> isUpper c \<or> c = 95)"

definition isSpace :: "nat \<Rightarrow> bool" where
  "isSpace c = (c = 9 \<or> c = 10 \<or> c = 11 \<or> c = 12 \<or> c = 13 \<or> c = 32 \<or> c = 160 \<or>
     c = 5760 \<or> (8192 \<le> c \<and> c \<le> 8202) \<or> c = 8232 \<or> c = 8233 \<or> c = 8239 \<or>
     c = 8287 \<or> c = 12288 \<or> c = 65279)"

definition trim :: "jstring \<Rightarrow> jstring" where
  "trim s = rev (dropWhile isSpace (rev (dropWhile isSpace s)))"

fun startsWith :: "jstring \<Rightarrow> jstring \<Rightarrow> bool" where
  "startsWith s [] = True"
| "startsWith [] (p # ps) = False"
| "startsWith (c # cs) (p # ps) = (c = p \<and> startsWith cs ps)"

text \<open>\<open>String.prototype.includes\<close>.\<close>

fun includes_str :: "jstring \<Rightarrow> jstring \<Rightarrow> bool" where
  "includes_str [] sub = (sub = [])"
| "includes_str (c # cs) sub = (startsWith (c # cs) sub \<or> includes_str cs sub)"

text \<open>
  \<open>String.prototype.toLowerCase\<close>.  Besides the ASCII capitals, the only code units
  whose lower-case form contains an ASCII letter are the Kelvin sign U+212A (which becomes
  \<open>k\<close>) and U+0130 (which becomes \<open>i\<close> followed by the combining dot U+0307).  Every other
  code unit is left as it is here; JavaScript maps some of them to other non-ASCII code
  units, which no comparison, character class or substring test of the sources tells
  apart from the original.
\<close>

definition lowerUnit :: "nat \<Rightarrow> jstring" where
  "lowerUnit c = (if isUpper c then [c + 32]
                  else if c = 8490 then [107]
                  else if c = 304 then [105, 775]
                  else [c])"

definition toLowerCase :: "jstring \<Rightarrow> jstring" where
  "toLowerCase s = concat (map lowerUnit s)"

text \<open>\<open>replace(/\s+/g, ' ')\<close>: every maximal run of white space becomes one space.  The
  flag says that the previous code unit was white space.\<close>

fun collapseFrom :: "bool \<Rightarrow> jstring \<Rightarrow> jstring" where
  "collapseFrom prevSpace [] = []"
| "collapseFrom prevSpace (c # cs) =
     (if isSpace c then (if prevSpace then collapseFrom True cs else 32 # collapseFrom True cs)
      else c # collapseFrom False cs)"

definition collapseSpaces :: "jstring \<Rightarrow> jstring" where
  "collapseSpaces s = collapseFrom False s"

text \<open>\<open>split(sep)\<close> for a separator of one code unit; the result is never empty.\<close>

fun split_str :: "nat \<Rightarrow> jstring \<Rightarrow> jstring list" where
  "split_str sep [] = [[]]"
| "split_str sep (c # cs) =
     (if c = sep then [] # split_str sep cs
      else (case split_str sep cs of
              [] \<Rightarrow> [[c]]
            | w # ws \<Rightarrow> (c # w) # ws))"

text \<open>The leftmost match of a pattern without the global flag, as \<open>String.prototype.match\<close>
  finds it: the pattern is tried at every position from the left.\<close>

fun firstMatch :: "(jstring \<Rightarrow> 'a option) \<Rightarrow> jstring \<Rightarrow> 'a option" where
  "firstMatch m [] = None"
| "firstMatch m (c # cs) = (case m (c # cs) of Some x \<Rightarrow> Some x | None \<Rightarrow> firstMatch m cs)"

text \<open>\<open>xs.slice(0, end)\<close>: a negative end counts from the end of the array.  (An end that
  is NaN, which an integer does not model, behaves as 0.)\<close>

definition slice0 :: "'a list \<Rightarrow> int \<Rightarrow> 'a list" where
  "slice0 xs e = (if e < 0 then take (nat (int (length xs) + e)) xs else take (nat e) xs)"

text \<open>The decimal text of an integer, as a template literal prints it.\<close>

function showNat :: "nat \<Rightarrow> jstring" where
  "showNat n = (if n < 10 then [48 + n] else showNat (n div 10) @ [48 + n mod 10])"
  by pat_completeness auto
termination
  by (relation "measure id") auto

declare showNat.simps [simp del]

definition showInt :: "int \<Rightarrow> jstring" where
  "showInt i = (if i < 0 then cu CHR ''-'' # showNat (nat (- i)) else showNat (nat i))"

text \<open>
  A JavaScript number is a finite value, an infinity or NaN.  Finite values are modelled
  as exact rationals: a decimal literal denotes its exact value, and the rounding of IEEE
  doubles is not modelled.  Negative zero is identified with zero, from which no
  comparison of the sources distinguishes it.
\<close>

datatype jsnum = NaN | Fin rat | PosInf | NegInf

fun isNaN :: "jsnum \<Rightarrow> bool" where
  "isNaN NaN = True"
| "isNaN _ = False"

fun js_lt :: "jsnum \<Rightarrow> jsnum \<Rightarrow> bool" where
  "js_lt (Fin a) (Fin b) = (a < b)"
| "js_lt (Fin a) PosInf = True"
| "js_lt NegInf (Fin b) = True"
| "js_lt NegInf PosInf = True"
| "js_lt _ _ = False"

fun js_le :: "jsnum \<Rightarrow> jsnum \<Rightarrow> bool" where
  "js_le (Fin a) (Fin b) = (a \<le> b)"
| "js_le (Fin a) PosInf = True"
| "js_le NegInf (Fin b) = True"
| "js_le NegInf PosInf = True"
| "js_le PosInf PosInf = True"
| "js_le NegInf NegInf = True"
| "js_le _ _ = False"

definition js_ge :: "jsnum \<Rightarrow> jsnum \<Rightarrow> bool" where
  "js_ge a b = js_le b a"

fun js_sub :: "jsnum \<Rightarrow> jsnum \<Rightarrow> jsnum" where
  "js_sub (Fin a) (Fin b) = Fin (a - b)"
| "js_sub NaN _ = NaN"
| "js_sub _ NaN = NaN"
| "js_sub PosInf PosInf = NaN"
| "js_sub NegInf NegInf = NaN"
| "js_sub PosInf _ = PosInf"
| "js_sub NegInf _ = NegInf"
| "js_sub (Fin a) PosInf = NegInf"
| "js_sub (Fin a) NegInf = PosInf"

text \<open>Truthiness of a number-or-null value: \<open>null\<close>, \<open>0\<close> and NaN are falsy.\<close>

fun truthy :: "jsnum option \<Rightarrow> bool" where
  "truthy None = False"
| "truthy (Some NaN) = False"
| "truthy (Some (Fin r)) = (r \<noteq> 0)"
| "truthy (Some _) = True"

text \<open>The numeric value of a number-or-null operand of a comparison (\<open>null\<close> converts
  to zero), and strict inequality of numbers (NaN differs from everything).\<close>

fun toNumber :: "jsnum option \<Rightarrow> jsnum" where
  "toNumber None = Fin 0"
| "toNumber (Some n) = n"

definition js_neq :: "jsnum \<Rightarrow> jsnum \<Rightarrow> bool" where
  "js_neq a b = (isNaN a \<or> isNaN b \<or> a \<noteq> b)"

text \<open>
  \<open>Array.prototype.sort\<close> with a comparator is a stable sort; for a consistent
  comparator its result is the one of this insertion sort.  A comparator result that is
  NaN counts as zero.
\<close>

fun js_insert :: "('a \<Rightarrow> 'a \<Rightarrow> jsnum) \<Rightarrow> 'a \<Rightarrow> 'a list \<Rightarrow> 'a list" where
  "js_insert cmp x [] = [x]"
| "js_insert cmp x (y # ys) =
     (if js_lt (Fin 0) (cmp x y) then y # js_insert cmp x ys else x # y # ys)"

definition js_sort :: "('a \<Rightarrow> 'a \<Rightarrow> jsnum) \<Rightarrow> 'a list \<Rightarrow> 'a list" where
  "js_sort cmp xs = foldr (js_insert cmp) xs []"

text \<open>
  \<open>parseFloat\<close>: leading white space is skipped, then the longest prefix that is a decimal
  literal (optional sign, \<open>Infinity\<close>, or digits with an optional fraction and an optional
  complete exponent part) is converted; NaN when there is none.
\<close>

definition digitsVal :: "jstring \<Rightarrow> nat" where
  "digitsVal ds = foldl (\<lambda>a c. 10 * a + (c - 48)) 0 ds"

definition exponentPart :: "jstring \<Rightarrow> int" where
  "exponentPart s =
     (case s of
        [] \<Rightarrow> 0
      | e # r \<Rightarrow>
          if e = cu CHR ''e'' \<or> e = cu CHR ''E'' then
            (let neg = (r \<noteq> [] \<and> hd r = cu CHR ''-'');
                 r' = (if r \<noteq> [] \<and> (hd r = cu CHR ''-'' \<or> hd r = cu CHR ''+'') then tl r else r);
                 ds = takeWhile isDigit r'
             in if ds = [] then 0
                else if neg then - int (digitsVal ds) else int (digitsVal ds))
          else 0)"

definition parseFloat :: "jstring \<Rightarrow> jsnum" where
  "parseFloat s =
     (let t = dropWhile isSpace s;
          neg = (t \<noteq> [] \<and> hd t = cu CHR ''-'');
          u = (if t \<noteq> [] \<and> (hd t = cu CHR ''-'' \<or> hd t = cu CHR ''+'') then tl t else t)
      in if startsWith u (js ''Infinity'') then (if neg then NegInf else PosInf)
         else
           (let ip = takeWhile isDigit u;
                r1 = drop (length ip) u;
                hasDot = (r1 \<noteq> [] \<and> hd r1 = cu CHR ''.'');
                fp = (if hasDot then takeWhile isDigit (tl r1) else []);
                r2 = (if hasDot then drop (1 + length fp) r1 else r1);
                ex = exponentPart r2;
                mant = of_nat (digitsVal ip) + of_nat (digitsVal fp) / 10 ^ length fp;
                mag = (if 0 \<le> ex then mant * 10 ^ nat ex else mant / 10 ^ nat (- ex))
            in if ip = [] \<and> fp = [] then NaN
               else Fin (if neg then - mag else mag)))"

section \<open>BaseScraper: the price normalizer\<close>

text \<open>
  The capture group \<open>([\d,]+(?:\.\d{1,2})?)\<close> at the head of a string: the captured text
  and the number of code units matched.  Both quantifiers are greedy and nothing follows
  the group, so the first attempt of the matcher is the match.
\<close>

definition priceGroup :: "jstring \<Rightarrow> (jstring \<times> nat) option" where
  "priceGroup s =
     (let body = takeWhile (\<lambda>c. isDigit c \<or> c = cu CHR '','') s;
          r = drop (length body) s;
          frac = (if r \<noteq> [] \<and> hd r = cu CHR ''.'' then take 2 (takeWhile isDigit (tl r)) else [])
      in if body = [] then None
         else if frac = [] then Some (body, length body)
         else Some (body @ cu CHR ''.'' # frac, length body + 1 + length frac))"

text \<open>The two patterns of \<open>rupeePatterns\<close>, anchored at the head of a string: the rupee
  sign, respectively \<open>Rs\<close> (in any case) with an optional dot, then white space, then the
  capture group.\<close>

definition rupeeAt :: "jstring \<Rightarrow> (jstring \<times> nat) option" where
  "rupeeAt s =
     (case s of
        [] \<Rightarrow> None
      | c # r \<Rightarrow>
          if c = RUPEE then
            (let ws = takeWhile isSpace r in
             case priceGroup (drop (length ws) r) of
               None \<Rightarrow> None
             | Some (cap, n) \<Rightarrow> Some (cap, 1 + length ws + n))
          else None)"

definition isRs :: "jstring \<Rightarrow> bool" where
  "isRs s = (case s of
               c1 # c2 # _ \<Rightarrow> (c1 = cu CHR ''R'' \<or> c1 = cu CHR ''r'') \<and> (c2 = cu CHR ''s'' \<or> c2 = cu CHR ''S'')
             | _ \<Rightarrow> False)"

definition rsAt :: "jstring \<Rightarrow> (jstring \<times> nat) option" where
  "rsAt s =
     (if isRs s then
        (let r = drop 2 s;
             dot = (if r \<noteq> [] \<and> hd r = cu CHR ''.'' then 1 else 0);
             ws = takeWhile isSpace (drop dot r)
         in case priceGroup (drop (dot + length ws) r) of
              None \<Rightarrow> None
            | Some (cap, n) \<Rightarrow> Some (cap, 2 + dot + length ws + n))
      else None)"

text \<open>
  The loop \<open>while ((match = pattern.exec(str)) !== null)\<close> of a global pattern: the
  captures of all matches from left to right, each search resuming where the previous
  match ended.  The second argument counts the code units of the current match still to be
  skipped.
\<close>

fun execAll :: "(jstring \<Rightarrow> (jstring \<times> nat) option) \<Rightarrow> nat \<Rightarrow> jstring \<Rightarrow> jstring list" where
  "execAll m skip [] = []"
| "execAll m skip (c # cs) =
     (if skip = 0 then
        (case m (c # cs) of
           Some (cap, n) \<Rightarrow> cap # execAll m (n - 1) cs
         | None \<Rightarrow> execAll m 0 cs)
      else execAll m (skip - 1) cs)"

definition removeCommas :: "jstring \<Rightarrow> jstring" where
  "removeCommas s = filter (\<lambda>c. c \<noteq> cu CHR '','') s"

text \<open>The value of every symbol-anchored match (both patterns, in the order the loops of
  \<open>extractPrice\<close> visit them), and the candidates kept by \<open>!isNaN(val) && val >= 100\<close>.\<close>

definition rupeeMatches :: "jstring \<Rightarrow> jsnum list" where
  "rupeeMatches str = map (\<lambda>cap. parseFloat (removeCommas cap)) (execAll rupeeAt 0 str @ execAll rsAt 0 str)"

definition candidatePrices :: "jstring \<Rightarrow> jsnum list" where
  "candidatePrices str = filter (\<lambda>val. \<not> isNaN val \<and> js_ge val (Fin 100)) (rupeeMatches str)"

text \<open>\<open>replace(/Rs\.?/gi, '')\<close> and \<open>replace(/\.(\d{3})(?!\d)/g, '$1')\<close>.\<close>

fun removeRs :: "jstring \<Rightarrow> jstring" where
  "removeRs (c1 # c2 # r) =
     (if isRs (c1 # c2 # r) then
        (case r of
           [] \<Rightarrow> []
         | d # r' \<Rightarrow> if d = cu CHR ''.'' then removeRs r' else removeRs (d # r'))
      else c1 # removeRs (c2 # r))"
| "removeRs [c] = [c]"
| "removeRs [] = []"

fun collapseThousands :: "jstring \<Rightarrow> jstring" where
  "collapseThousands (c # d1 # d2 # d3 # r) =
     (if c = cu CHR ''.'' \<and> isDigit d1 \<and> isDigit d2 \<and> isDigit d3 \<and>
         \<not> (case r of [] \<Rightarrow> False | d4 # _ \<Rightarrow> isDigit d4)
      then d1 # d2 # d3 # collapseThousands r
      else c # collapseThousands (d1 # d2 # d3 # r))"
| "collapseThousands (c # r) = c # collapseThousands r"
| "collapseThousands [] = []"

text \<open>
  \<open>extractPrice(priceText)\<close>.  The argument is the text \<open>String(priceText)\<close>, or \<open>None\<close> for
  \<open>null\<close> and \<open>undefined\<close>; the result is \<open>None\<close> for \<open>null\<close>.
\<close>

definition extractPrice :: "jstring option \<Rightarrow> jsnum option" where
  "extractPrice priceText =
     (case priceText of
        None \<Rightarrow> None
      | Some text \<Rightarrow>
          (let str = trim text in
           if length str < 2 then None
           else if candidatePrices str \<noteq> [] then Some (hd (js_sort js_sub (candidatePrices str)))
           else
             (let cleaned = trim (removeRs (filter (\<lambda>c. \<not> (c = RUPEE \<or> c = cu CHR ''$'' \<or> c = cu CHR '','' \<or> isSpace c)) str))
              in if cleaned = [] then None
                 else
                   (let normalized = collapseThousands cleaned;
                        price = parseFloat normalized
                    in if isNaN price \<or> js_le price (Fin 0) \<or> js_lt price (Fin 100) then None
                       else Some price))))"

section \<open>BaseScraper: canonical products\<close>

text \<open>A value of a field that the scrapers fill loosely.\<close>

datatype jsval = Undefined | Null | Bool bool | Num jsnum | Str jstring

text \<open>
  The raw result a scraper hands to \<open>normalizeResults\<close>.  A field that may be missing is
  an option; \<open>raw_price\<close> is the number-or-null result of \<open>extractPrice\<close>.
\<close>

record rawResult =
  raw_title :: "jstring option"
  raw_price :: "jsnum option"
  raw_url :: "jstring option"
  raw_imageUrl :: "jstring option"
  raw_availability :: jsval
  raw_specs :: "jstring option"
  raw_description :: "jstring option"

text \<open>The canonical product, with the legacy and the canonical name of every field as
  \<open>normalizeResults\<close> emits them.\<close>

record product =
  source :: jstring
  platform :: jstring
  siteName :: jstring
  product_name :: jstring
  title :: jstring
  productTitle :: jstring
  price :: "jsnum option"
  currency :: jstring
  product_url :: "jstring option"
  url :: "jstring option"
  productUrl :: "jstring option"
  image_url :: "jstring option"
  imageUrl :: "jstring option"
  availability :: bool
  inStock :: bool
  specs :: jstring
  description :: jstring

definition cleanTitle :: "jstring option \<Rightarrow> jstring" where
  "cleanTitle t =
     (case t of
        None \<Rightarrow> []
      | Some s \<Rightarrow> if s = [] then [] else take 500 (collapseSpaces (trim s)))"

text \<open>\<open>x || null\<close> and \<open>x || d\<close> on an optional string: the empty string is falsy.\<close>

definition orNull :: "jstring option \<Rightarrow> jstring option" where
  "orNull x = (case x of None \<Rightarrow> None | Some s \<Rightarrow> if s = [] then None else Some s)"

definition orElse :: "jstring option \<Rightarrow> jstring \<Rightarrow> jstring" where
  "orElse x d = (case x of None \<Rightarrow> d | Some s \<Rightarrow> if s = [] then d else s)"

text \<open>The test \<open>!result.price || result.price < 100\<close> that rejects a result.\<close>

definition invalidPrice :: "jsnum option \<Rightarrow> bool" where
  "invalidPrice p = (\<not> truthy p \<or> js_lt (toNumber p) (Fin 100))"

definition toProduct :: "jstring \<Rightarrow> rawResult \<Rightarrow> product" where
  "toProduct platformName result =
     \<lparr> source = platformName,
       platform = platformName,
       siteName = platformName,
       product_name = cleanTitle (raw_title result),
       title = cleanTitle (raw_title result),
       productTitle = cleanTitle (raw_title result),
       price = raw_price result,
       currency = js ''INR'',
       product_url = raw_url result,
       url = raw_url result,
       productUrl = raw_url result,
       image_url = orNull (raw_imageUrl result),
       imageUrl = orNull (raw_imageUrl result),
       availability = (if raw_availability result = Str (js ''out_of_stock'') then False else True),
       inStock = (raw_availability result \<noteq> Str (js ''out_of_stock'')),
       specs = orElse (raw_specs result) [],
       description = orElse (raw_description result) (cleanTitle (raw_title result)) \<rparr>"

definition normalizeResults :: "jstring \<Rightarrow> rawResult list \<Rightarrow> product list" where
  "normalizeResults platformName results =
     map (toProduct platformName) (filter (\<lambda>result. \<not> invalidPrice (raw_price result)) results)"

section \<open>BaseScraper: transport with retry and fallback\<close>

text \<open>
  An exception is a value carrying its message.  The outcome of an operation that may
  throw is a sum, \<open>Inl\<close> the exception.
\<close>

datatype js_error = Error (message: jstring)

text \<open>
  What \<open>smartFetch\<close> does to the outside world, in order: an HTTP attempt of
  \<open>makeRequest\<close> with its number, a \<open>delay\<close> with its milliseconds, a fetch with the
  headless browser.
\<close>

datatype event = HttpAttempt int | Delay int | BrowserFetch

text \<open>
  The loop of \<open>makeRequest\<close>.  The outcome of the HTTP attempt with a given number is the
  parameter \<open>axios\<close>; the state is the attempt counter, \<open>lastError\<close> and the events so
  far.  Reading \<open>lastError.message\<close> when no attempt was made throws the TypeError of the
  runtime.
\<close>

definition undefinedMessage :: js_error where
  "undefinedMessage = Error (js ''Cannot read properties of undefined (reading 'message')'')"

text \<open>The statement after the loop,
  \<open>throw new Error(`Failed to fetch from ${platformName} after ${maxRetries} attempts: ${lastError.message}`)\<close>:
  the error that leaves \<open>makeRequest\<close>.\<close>

definition giveUp :: "jstring \<Rightarrow> int \<Rightarrow> js_error option \<Rightarrow> js_error" where
  "giveUp platformName maxRetries lastError =
     (case lastError of
        None \<Rightarrow> undefinedMessage
      | Some err \<Rightarrow>
          Error (js ''Failed to fetch from '' @ platformName @ js '' after '' @
                 showInt maxRetries @ js '' attempts: '' @ message err))"

function makeRequestLoop ::
  "jstring \<Rightarrow> int \<Rightarrow> (int \<Rightarrow> js_error + jstring) \<Rightarrow> int \<Rightarrow> js_error option \<Rightarrow> event list
     \<Rightarrow> event list \<times> (js_error + jstring)" where
  "makeRequestLoop platformName maxRetries axios attempt lastError trace =
     (if attempt \<le> maxRetries then
        (case axios attempt of
           Inr data \<Rightarrow> (trace @ [HttpAttempt attempt], Inr data)
         | Inl err \<Rightarrow>
             makeRequestLoop platformName maxRetries axios (attempt + 1) (Some err)
               (trace @ HttpAttempt attempt #
                  (if attempt < maxRetries then [Delay (1000 * 2 ^ nat (attempt - 1))] else [])))
      else (trace, Inl (giveUp platformName maxRetries lastError)))"
  by pat_completeness auto
termination
  by (relation "measure (\<lambda>(p, maxRetries, a, attempt, l, t). nat (maxRetries + 1 - attempt))") auto

declare makeRequestLoop.simps [simp del]

text \<open>\<open>this.maxRetries\<close> when the environment does not set \<open>MAX_RETRIES\<close>, and
  \<open>makeRequest\<close> for the number of attempts \<open>options.maxRetries ?? this.maxRetries\<close>.\<close>

definition defaultMaxRetries :: int where
  "defaultMaxRetries = 3"

definition makeRequest ::
  "jstring \<Rightarrow> int \<Rightarrow> (int \<Rightarrow> js_error + jstring) \<Rightarrow> event list \<times> (js_error + jstring)" where
  "makeRequest platformName maxRetries axios = makeRequestLoop platformName maxRetries axios 1 None []"

text \<open>\<open>smartFetch\<close>; \<open>browser\<close> is the outcome of the single call of \<open>fetchWithBrowser\<close>.\<close>

definition smartFetch ::
  "jstring \<Rightarrow> int \<Rightarrow> (int \<Rightarrow> js_error + jstring) \<Rightarrow> (js_error + jstring)
     \<Rightarrow> event list \<times> (js_error + jstring)" where
  "smartFetch platformName maxRetries axios browser =
     (case makeRequest platformName maxRetries axios of
        (trace, Inr data) \<Rightarrow> (trace, Inr data)
      | (trace, Inl axiosError) \<Rightarrow>
          (case browser of
             Inr html \<Rightarrow> (trace @ [BrowserFetch], Inr html)
           | Inl puppeteerError \<Rightarrow>
               (trace @ [BrowserFetch],
                Inl (Error (js ''All fetch methods failed for '' @ platformName @ js '': axios('' @
                            message axiosError @ js ''), puppeteer('' @ message puppeteerError @ js '')'')))))"

section \<open>ProductMatcher: duplicates within one website\<close>

definition brandMap :: "(jstring \<times> jstring list) list" where
  "brandMap =
     [(js ''apple'', map js [''iphone'', ''macbook'', ''ipad'', ''airpods'', ''apple watch'']),
      (js ''samsung'', map js [''galaxy'', ''samsung'']),
      (js ''oneplus'', map js [''oneplus'']),
      (js ''xiaomi'', map js [''xiaomi'', ''redmi'', ''poco'']),
      (js ''realme'', map js [''realme'']),
      (js ''oppo'', map js [''oppo'']),
      (js ''vivo'', map js [''vivo'']),
      (js ''google'', map js [''pixel'']),
      (js ''motorola'', map js [''moto'', ''motorola'']),
      (js ''nothing'', map js [''nothing'']),
      (js ''asus'', map js [''asus'', ''rog'']),
      (js ''dell'', map js [''dell'', ''xps'', ''inspiron'']),
      (js ''hp'', map js [''hp'', ''pavilion'', ''omen'']),
      (js ''lenovo'', map js [''lenovo'', ''thinkpad'', ''yoga'']),
      (js ''acer'', map js [''acer'', ''aspire'']),
      (js ''msi'', map js [''msi'']),
      (js ''microsoft'', map js [''surface'']),
      (js ''sony'', map js [''sony'', ''wh-'', ''wf-'']),
      (js ''jbl'', map js [''jbl'']),
      (js ''bose'', map js [''bose'']),
      (js ''boat'', map js [''boat'']),
      (js ''skullcandy'', map js [''skullcandy''])]"

text \<open>
  \<open>replace(/\b(in|for|with|and|the|a|an|of|to|official)\b/g, '')\<close>.  A match starts
  where the previous code unit is not a word character and ends at a word boundary, and
  every alternative consists of word characters: it is a whole word of the list.  The
  flag says that the previous code unit was a word character, the counter how many code
  units of a removed word are still to be skipped.
\<close>

definition fillerWords :: "jstring list" where
  "fillerWords = map js [''in'', ''for'', ''with'', ''and'', ''the'', ''a'', ''an'', ''of'', ''to'', ''official'']"

fun removeFillers :: "bool \<Rightarrow> nat \<Rightarrow> jstring \<Rightarrow> jstring" where
  "removeFillers prevWord skip [] = []"
| "removeFillers prevWord skip (c # cs) =
     (if 0 < skip then removeFillers (isWordChar c) (skip - 1) cs
      else if \<not> prevWord \<and> takeWhile isWordChar (c # cs) \<in> set fillerWords
      then removeFillers (isWordChar c) (length (takeWhile isWordChar (c # cs)) - 1) cs
      else c # removeFillers (isWordChar c) 0 cs)"

definition normalizeTitle :: "jstring \<Rightarrow> jstring" where
  "normalizeTitle t =
     (if t = [] then []
      else trim (removeFillers False 0 (collapseSpaces
             (filter (\<lambda>c. isLower c \<or> isDigit c \<or> isSpace c) (trim (toLowerCase t))))))"

definition extractBrand :: "jstring \<Rightarrow> jstring option" where
  "extractBrand t =
     (let normalized = normalizeTitle t in
      map_option fst
        (find (\<lambda>(brand, keywords). list_ex (\<lambda>keyword. includes_str normalized keyword) keywords) brandMap))"

text \<open>
  \<open>/\b([a-z0-9]+\s+(?:pro|max|plus|ultra|standard)?)\b/\<close> at one position.  The run of
  \<open>[a-z0-9]\<close> and the run of white space are both maximal in every match (a shorter run
  is followed by a code unit of the same class); the optional group is taken when one
  alternative is followed by a word boundary, otherwise the match ends before the next
  word.
\<close>

definition modelSuffixes :: "jstring list" where
  "modelSuffixes = map js [''pro'', ''max'', ''plus'', ''ultra'', ''standard'']"

definition wordFollows :: "jstring \<Rightarrow> bool" where
  "wordFollows r = (case r of [] \<Rightarrow> False | c # _ \<Rightarrow> isWordChar c)"

definition modelAt :: "bool \<Rightarrow> jstring \<Rightarrow> jstring option" where
  "modelAt prevWord s =
     (let w = takeWhile (\<lambda>c. isLower c \<or> isDigit c) s;
          sp = takeWhile isSpace (drop (length w) s);
          r = drop (length w + length sp) s
      in if prevWord \<or> w = [] \<or> sp = [] then None
         else (case find (\<lambda>alt. startsWith r alt \<and> \<not> wordFollows (drop (length alt) r)) modelSuffixes of
                 Some alt \<Rightarrow> Some (w @ sp @ alt)
               | None \<Rightarrow> if wordFollows r then Some (w @ sp) else None))"

fun firstModel :: "bool \<Rightarrow> jstring \<Rightarrow> jstring option" where
  "firstModel prevWord [] = None"
| "firstModel prevWord (c # cs) =
     (case modelAt prevWord (c # cs) of
        Some m \<Rightarrow> Some m
      | None \<Rightarrow> firstModel (isWordChar c) cs)"

definition extractModel :: "jstring \<Rightarrow> jstring option" where
  "extractModel t = map_option trim (firstModel False (normalizeTitle t))"

text \<open>\<open>calculateTitleSimilarity\<close>, in exact arithmetic.  The two sets of words are lists
  without duplicates; only their sizes and their members are used.\<close>

definition significantWords :: "jstring \<Rightarrow> jstring list" where
  "significantWords normalized = remdups (filter (\<lambda>w. 2 < length w) (split_str 32 normalized))"

definition calculateTitleSimilarity :: "jstring \<Rightarrow> jstring \<Rightarrow> rat" where
  "calculateTitleSimilarity title1 title2 =
     (let norm1 = normalizeTitle title1; norm2 = normalizeTitle title2 in
      if norm1 = norm2 then 100
      else
        (let words1 = significantWords norm1; words2 = significantWords norm2 in
         if words1 = [] \<or> words2 = [] then 0
         else
           (let matches = length (filter (\<lambda>word. word \<in> set words2) words1)
            in (of_nat matches / of_nat (max (length words1) (length words2))) * 100)))"

text \<open>\<open>/\((\w[\w\s]*?)(?:,|\))/i\<close> at one position: the lazy run stops at the first comma
  or closing parenthesis, which must come right after the word characters and spaces.\<close>

definition colorAt :: "jstring \<Rightarrow> jstring option" where
  "colorAt s =
     (case s of
        p # c0 # rest \<Rightarrow>
          if p = cu CHR ''('' \<and> isWordChar c0 then
            (let run = takeWhile (\<lambda>c. isWordChar c \<or> isSpace c) rest in
             case drop (length run) rest of
               [] \<Rightarrow> None
             | d # _ \<Rightarrow> if d = cu CHR '','' \<or> d = cu CHR '')'' then Some (c0 # run) else None)
          else None
      | _ \<Rightarrow> None)"

definition knownColors :: "jstring list" where
  "knownColors = map js
     [''black'', ''white'', ''blue'', ''red'', ''green'', ''gold'', ''silver'', ''grey'', ''gray'',
      ''pink'', ''purple'', ''orange'', ''yellow'', ''teal'', ''coral'', ''ultramarine'',
      ''midnight'', ''starlight'', ''titanium'', ''graphite'', ''sierra'', ''alpine'',
      ''natural'', ''desert'', ''cream'', ''ivory'', ''lavender'', ''bronze'', ''navy'',
      ''space gray'', ''space grey'', ''rose gold'']"

definition extractColor :: "jstring \<Rightarrow> jstring option" where
  "extractColor t =
     (case firstMatch colorAt t of
        None \<Rightarrow> None
      | Some cap \<Rightarrow>
          (let candidate = toLowerCase (trim cap) in
           if candidate \<in> set knownColors then Some candidate else None))"

text \<open>\<open>/(\d+)\s*(gb|tb|mb)/i\<close> at one position.\<close>

definition isUnit :: "jstring \<Rightarrow> bool" where
  "isUnit u =
     (case u of
        [a, b] \<Rightarrow> a \<in> set (js ''gGtTmM'') \<and> b \<in> set (js ''bB'')
      | _ \<Rightarrow> False)"

definition storageAt :: "jstring \<Rightarrow> jstring option" where
  "storageAt s =
     (let ds = takeWhile isDigit s;
          r = dropWhile isSpace (drop (length ds) s)
      in if ds \<noteq> [] \<and> isUnit (take 2 r) then Some (ds @ toLowerCase (take 2 r)) else None)"

definition extractStorage :: "jstring \<Rightarrow> jstring option" where
  "extractStorage t = firstMatch storageAt t"

text \<open>\<open>product.title || product.product_name || ''\<close>.\<close>

definition titleOf :: "product \<Rightarrow> jstring" where
  "titleOf p = (if title p \<noteq> [] then title p else if product_name p \<noteq> [] then product_name p else [])"

text \<open>\<open>a && b && a !== b\<close> on two optional strings: both present, not empty and different.\<close>

definition bothDiffer :: "jstring option \<Rightarrow> jstring option \<Rightarrow> bool" where
  "bothDiffer a b =
     (case (a, b) of
        (Some x, Some y) \<Rightarrow> x \<noteq> [] \<and> y \<noteq> [] \<and> x \<noteq> y
      | _ \<Rightarrow> False)"

definition doProductsMatch :: "product \<Rightarrow> product \<Rightarrow> bool" where
  "doProductsMatch product1 product2 =
     (let title1 = titleOf product1; title2 = titleOf product2 in
      if calculateTitleSimilarity title1 title2 < 70 then False
      else if bothDiffer (extractBrand title1) (extractBrand title2) then False
      else if bothDiffer (extractColor title1) (extractColor title2) then False
      else if bothDiffer (extractStorage title1) (extractStorage title2) then False
      else if bothDiffer (extractModel title1) (extractModel title2) then False
      else True)"

text \<open>
  \<open>deduplicateByWebsite\<close>.  The state of the loop is the pair of the arrays \<open>seen\<close> and
  \<open>deduplicated\<close>; \<open>firstDuplicate\<close> is the inner loop, which stops at the first entry
  of \<open>seen\<close> that matches.
\<close>

fun firstDuplicate :: "product \<Rightarrow> product list \<Rightarrow> nat \<Rightarrow> nat option" where
  "firstDuplicate p [] i = None"
| "firstDuplicate p (s # seen) i = (if doProductsMatch p s then Some i else firstDuplicate p seen (i + 1))"

definition cheaper :: "product \<Rightarrow> product \<Rightarrow> bool" where
  "cheaper p s = (truthy (price p) \<and> truthy (price s) \<and> js_lt (toNumber (price p)) (toNumber (price s)))"

definition dedupStep :: "product list \<times> product list \<Rightarrow> product \<Rightarrow> product list \<times> product list" where
  "dedupStep st p =
     (case st of (seen, deduplicated) \<Rightarrow>
        (case firstDuplicate p seen 0 of
           Some i \<Rightarrow>
             if cheaper p (seen ! i) then (seen[i := p], deduplicated[i := p])
             else (seen, deduplicated)
         | None \<Rightarrow> (seen @ [p], deduplicated @ [p])))"

definition deduplicateByWebsite :: "product list \<Rightarrow> product list" where
  "deduplicateByWebsite products =
     (if length products \<le> 1 then products
      else snd (foldl dedupStep ([], []) products))"

section \<open>ScraperRegistry: searching all platforms\<close>

text \<open>
  A scraper's \<open>search(query, maxResults)\<close> returns canonical products or throws.  The
  scrapers run concurrently and are taken not to influence each other: the outcome of one
  search is a function of the query and the limit.  The registry is a \<open>Map\<close>, modelled
  as the list of its entries in insertion order.  The wall-clock fields \<open>durationMs\<close> and
  \<open>searchedAt\<close> are left out.
\<close>

type_synonym scraper = "jstring \<Rightarrow> int \<Rightarrow> js_error + product list"

text \<open>
  The errors that the \<open>search\<close> methods of the three registered scrapers construct: when
  neither the browser nor HTTP could fetch the search page, and when the page fetched is
  too small to be a result page.  \<open>site\<close> is the name that heads the message: \<open>Amazon\<close>,
  \<open>Flipkart\<close> or \<open>Myntra\<close>.
\<close>

definition fetchFailed :: "jstring \<Rightarrow> js_error \<Rightarrow> js_error" where
  "fetchFailed site axiosErr =
     Error (site @ js '' search failed: could not fetch search page ('' @ message axiosErr @ js '')'')"

definition blockedResponse :: "jstring \<Rightarrow> js_error" where
  "blockedResponse site = Error (site @ js '' returned empty/blocked response'')"

record platformData =
  success :: bool
  checked :: bool
  count :: nat
  results :: "product list"
  error :: "jstring option"
  rejectedCount :: "int option"

text \<open>
  The aggregated result.  The object \<open>platforms\<close> is the list of its properties in
  insertion order, which is the order in which \<open>Object.keys\<close> enumerates names that are
  not array indices; \<open>sortedAllProducts\<close> is absent until \<open>applySorting\<close> adds it.
\<close>

record aggregated =
  query :: jstring
  platforms :: "(jstring \<times> platformData) list"
  totalResults :: nat
  lowestPrice :: "product option"
  sortedAllProducts :: "product list option"

text \<open>Assignment to a property of an object: an existing property keeps its place.\<close>

definition objSet :: "('k \<times> 'v) list \<Rightarrow> 'k \<Rightarrow> 'v \<Rightarrow> ('k \<times> 'v) list" where
  "objSet obj k v =
     (if k \<in> fst ` set obj then map (\<lambda>(k', v'). if k' = k then (k', v) else (k', v')) obj
      else obj @ [(k, v)])"

definition internalLimit :: "int \<Rightarrow> int" where
  "internalLimit maxResults = max (maxResults * 3) 15"

text \<open>The promise of one platform: it always fulfils, with the results or with the failure.\<close>

definition searchPromise :: "jstring \<Rightarrow> int \<Rightarrow> jstring \<times> scraper \<Rightarrow> jstring \<times> platformData" where
  "searchPromise q limit entry =
     (case entry of (platformName, search) \<Rightarrow>
        (case search q limit of
           Inr rs \<Rightarrow>
             (platformName,
              \<lparr> success = True, checked = True, count = length rs, results = rs,
                error = None, rejectedCount = None \<rparr>)
         | Inl err \<Rightarrow>
             (platformName,
              \<lparr> success = False, checked = True, count = 0, results = [],
                error = Some (message err), rejectedCount = None \<rparr>)))"

text \<open>\<open>if (price && (!lowest || price < lowest.price)) lowest = { ...product, platform }\<close>.\<close>

definition trackLowest :: "jstring \<Rightarrow> product option \<Rightarrow> product \<Rightarrow> product option" where
  "trackLowest platformName lowest p =
     (if truthy (price p) \<and>
         (case lowest of None \<Rightarrow> True | Some l \<Rightarrow> js_lt (toNumber (price p)) (toNumber (price l)))
      then Some (p\<lparr>platform := platformName\<rparr>)
      else lowest)"

definition aggregateStep :: "aggregated \<Rightarrow> jstring \<times> platformData \<Rightarrow> aggregated" where
  "aggregateStep agg settled =
     (case settled of (platformName, pd) \<Rightarrow>
        agg\<lparr> platforms := objSet (platforms agg) platformName pd,
             totalResults := totalResults agg + length (results pd),
             lowestPrice := foldl (trackLowest platformName) (lowestPrice agg) (results pd) \<rparr>)"

definition registry_searchAll :: "(jstring \<times> scraper) list \<Rightarrow> jstring \<Rightarrow> int \<Rightarrow> aggregated" where
  "registry_searchAll scrapers q maxResults =
     foldl aggregateStep
       \<lparr> query = q, platforms = [], totalResults = 0, lowestPrice = None, sortedAllProducts = None \<rparr>
       (map (searchPromise q (internalLimit maxResults)) scrapers)"

section \<open>SearchService: relevance, filtering and sorting\<close>

definition allowedWebsites :: "jstring list" where
  "allowedWebsites = map js [''amazon'', ''flipkart'', ''myntra'', ''croma'', ''reliance'']"

definition stopWords :: "jstring list" where
  "stopWords = map js
     [''for'', ''with'', ''and'', ''the'', ''a'', ''an'', ''of'', ''to'', ''in'', ''on'', ''by'',
      ''from'', ''new'', ''latest'', ''best'', ''buy'', ''online'', ''india'', ''price'',
      ''sale'', ''deal'', ''offer'', ''discount'', ''combo'', ''pack'', ''set'', ''piece'',
      ''is'', ''it'', ''at'', ''or'', ''be'', ''this'', ''that'', ''was'', ''are'', ''were'',
      ''has'', ''have'', ''had'', ''do'', ''does'', ''did'', ''will'', ''would'', ''could'',
      ''should'', ''may'', ''might'', ''can'', ''shall'', ''get'', ''got'', ''make'']"

definition knownBrands :: "jstring list" where
  "knownBrands = map js
     [''iphone'', ''apple'', ''samsung'', ''oneplus'', ''xiaomi'', ''redmi'', ''realme'',
      ''oppo'', ''vivo'', ''pixel'', ''google'', ''motorola'', ''nothing'', ''poco'',
      ''iqoo'', ''nokia'', ''huawei'', ''honor'', ''asus'', ''rog'',
      ''dell'', ''hp'', ''lenovo'', ''acer'', ''msi'', ''macbook'', ''thinkpad'',
      ''surface'', ''microsoft'', ''intel'', ''amd'', ''nvidia'',
      ''nike'', ''adidas'', ''puma'', ''reebok'', ''skechers'', ''levis'', ''zara'',
      ''hm'', ''uniqlo'', ''gucci'', ''prada'', ''louis'', ''vuitton'',
      ''sony'', ''lg'', ''bosch'', ''philips'', ''dyson'', ''jbl'', ''bose'',
      ''boat'', ''fire'', ''boltt'', ''fossil'', ''titan'', ''casio'', ''timex'']"

definition accessoryKeywords :: "jstring list" where
  "accessoryKeywords = map js
     [''case'', ''cover'', ''back cover'', ''tempered'', ''screen guard'', ''screen protector'',
      ''protector'', ''charger'', ''cable'', ''adapter'', ''earbuds'', ''earphones'',
      ''headphones'', ''power bank'', ''holder'', ''stand'', ''tripod'', ''watch strap'',
      ''skin'', ''sticker'', ''decal'', ''pouch'', ''sleeve'', ''cleaning kit'', ''stylus'',
      ''film'', ''mount'', ''grip'', ''ring holder'', ''pop socket'', ''armband'',
      ''car mount'', ''dock'', ''hub'', ''dongle'', ''otg'', ''memory card'']"

definition apparelKeywords :: "jstring list" where
  "apparelKeywords = map js
     [''dress'', ''top'', ''shirt'', ''tshirt'', ''t-shirt'', ''kurta'', ''saree'', ''sari'',
      ''jeans'', ''jacket'', ''hoodie'', ''bra'', ''pant'', ''trouser'', ''skirt'', ''shoe'',
      ''sandal'', ''heels'', ''blouse'', ''lehenga'', ''dupatta'', ''palazzo'', ''shorts'',
      ''trackpant'', ''track pant'', ''jogger'', ''sweatshirt'', ''sweater'', ''cardigan'',
      ''blazer'', ''suit'', ''tie'', ''belt'', ''scarf'', ''shawl'', ''stole'', ''lingerie'',
      ''underwear'', ''boxers'', ''socks'', ''cap'', ''hat'', ''beanie'', ''watch band'',
      ''handbag'', ''purse'', ''wallet'', ''clutch'', ''tote'', ''backpack'',
      ''printed'', ''cotton'', ''polyester'', ''silk'', ''chiffon'', ''georgette'']"

definition electronicsKeywords :: "jstring list" where
  "electronicsKeywords = map js
     [''phone'', ''mobile'', ''smartphone'', ''laptop'', ''tablet'', ''camera'', ''tv'',
      ''television'', ''monitor'', ''speaker'', ''headphone'', ''earphone'', ''earbud'',
      ''smartwatch'', ''watch'', ''console'', ''gaming'', ''processor'', ''gpu'', ''ssd'',
      ''hdd'', ''ram'', ''router'', ''printer'', ''scanner'', ''projector'', ''drone'',
      ''gb'', ''tb'', ''5g'', ''4g'', ''wifi'', ''bluetooth'', ''amoled'', ''oled'', ''lcd'']"

definition colors :: "jstring list" where
  "colors = map js
     [''red'', ''blue'', ''green'', ''black'', ''white'', ''gold'', ''silver'', ''grey'',
      ''gray'', ''pink'', ''purple'', ''orange'', ''yellow'', ''brown'', ''beige'', ''navy'',
      ''teal'', ''coral'', ''maroon'', ''cream'', ''ivory'', ''lavender'', ''midnight'',
      ''space'', ''starlight'', ''titanium'', ''graphite'', ''sierra'', ''alpine'']"

definition sourcePriority :: "(jstring \<times> rat) list" where
  "sourcePriority = [(js ''amazon'', 1), (js ''flipkart'', 2), (js ''myntra'', 3)]"

definition brandAliases :: "(jstring \<times> jstring list) list" where
  "brandAliases =
     [(js ''iphone'', map js [''iphone'', ''apple iphone'']),
      (js ''apple'', map js [''apple'', ''iphone'']),
      (js ''samsung'', map js [''samsung'', ''galaxy'']),
      (js ''oneplus'', map js [''oneplus'', ''one plus'']),
      (js ''redmi'', map js [''redmi'', ''xiaomi redmi'']),
      (js ''pixel'', map js [''pixel'', ''google pixel''])]"

definition isColor :: "jstring \<Rightarrow> bool" where
  "isColor token = (token \<in> set colors)"

definition normalizeText :: "jstring \<Rightarrow> jstring" where
  "normalizeText t =
     trim (collapseSpaces
       (map (\<lambda>c. if isLower c \<or> isDigit c \<or> isSpace c then c else 32) (toLowerCase t)))"

definition tokenize :: "jstring \<Rightarrow> jstring list" where
  "tokenize t = filter (\<lambda>token. 1 < length token \<and> token \<notin> set stopWords) (split_str 32 (normalizeText t))"

text \<open>Rule 3 of \<open>scoreRelevance\<close>: some alias of some brand token stands right before
  some numeric token in the title, with or without a space.\<close>

definition foundPhrase :: "jstring \<Rightarrow> jstring list \<Rightarrow> jstring list \<Rightarrow> bool" where
  "foundPhrase titleNorm brandTokens numericTokens =
     list_ex (\<lambda>brand.
        list_ex (\<lambda>alias.
           list_ex (\<lambda>num.
              includes_str titleNorm (alias @ 32 # num) \<or>
              includes_str titleNorm (alias @ num) \<or>
              includes_str titleNorm (brand @ 32 # num) \<or>
              includes_str titleNorm (brand @ num)) numericTokens)
          (case map_of brandAliases brand of None \<Rightarrow> [brand] | Some aliases \<Rightarrow> aliases))
       brandTokens"

text \<open>\<open>scoreRelevance\<close>, in exact arithmetic; the sets of tokens are lists without
  duplicates.\<close>

definition scoreRelevance :: "jstring \<Rightarrow> jstring \<Rightarrow> rat" where
  "scoreRelevance searchQuery t =
     (let queryNorm = normalizeText searchQuery;
          titleNorm = normalizeText t
      in if queryNorm = [] \<or> titleNorm = [] then - 1
         else
           (let queryTokens = tokenize queryNorm;
                titleTokens = tokenize titleNorm
            in if queryTokens = [] then - 1
               else if titleTokens = [] then - 1
               else
                 (let queryTokenSet = remdups queryTokens;
                      titleTokenSet = remdups titleTokens;
                      brandTokens = filter (\<lambda>tk. tk \<in> set knownBrands) queryTokens;
                      numericTokens = filter (list_ex isDigit) queryTokens;
                      colorTokens = filter isColor queryTokens;
                      isElectronicsQuery =
                        list_ex (\<lambda>tk. tk \<in> set electronicsKeywords \<or> tk \<in> set knownBrands) queryTokens
                  in if brandTokens \<noteq> [] \<and>
                        \<not> list_all (\<lambda>brand. brand \<in> set titleTokenSet \<or> includes_str titleNorm brand) brandTokens
                     then - 1
                     else if numericTokens \<noteq> [] \<and> \<not> list_all (includes_str titleNorm) numericTokens
                     then - 1
                     else if brandTokens \<noteq> [] \<and> numericTokens \<noteq> [] \<and>
                             \<not> foundPhrase titleNorm brandTokens numericTokens
                     then - 1
                     else if isElectronicsQuery \<and> list_ex (includes_str titleNorm) accessoryKeywords
                     then - 1
                     else if isElectronicsQuery \<and> list_ex (includes_str titleNorm) apparelKeywords
                     then - 1
                     else
                       (let matchedCount =
                              length (filter (\<lambda>token. token \<in> set titleTokenSet \<or> includes_str titleNorm token)
                                        queryTokenSet);
                            overlapRatio = of_nat matchedCount / of_nat (length queryTokenSet);
                            minOverlap = (if length queryTokenSet \<le> 3 then 1 / 2 else 2 / 5)
                        in if overlapRatio < minOverlap then - 1
                           else if length queryTokenSet \<le> 2 \<and> matchedCount < length queryTokenSet then - 1
                           else
                             of_nat matchedCount
                             + (if includes_str titleNorm queryNorm then 5 else 0)
                             + (if colorTokens \<noteq> []
                                then of_nat (length (filter (includes_str titleNorm) colorTokens)) * (3 / 2)
                                else 0)
                             + overlapRatio * 3
                             + (if brandTokens \<noteq> [] then 2 else 0)
                             + (if numericTokens \<noteq> [] then 2 else 0)))))"

text \<open>\<open>filterAndRankProducts\<close>: an item is the pair of a product and its score.\<close>

definition filterAndRankProducts :: "product list \<Rightarrow> jstring \<Rightarrow> int \<Rightarrow> product list" where
  "filterAndRankProducts products searchQuery maxResults =
     (if products = [] then []
      else
        map fst
          (slice0
             (js_sort (\<lambda>a b. Fin (snd b - snd a))
                (filter (\<lambda>item. \<not> snd item \<le> 0)
                   (map (\<lambda>p. (p, scoreRelevance searchQuery (titleOf p))) products)))
             maxResults))"

text \<open>
  \<open>applyRelevanceFilter\<close>.  The loop visits every property of \<open>platforms\<close> once and
  either deletes it or rewrites its \<open>results\<close>, \<open>count\<close> and \<open>rejectedCount\<close>; its state is
  the properties kept so far, \<open>totalResults\<close> and \<open>lowestPrice\<close>.  The counters that are
  only logged are left out.
\<close>

definition finalResultsOf :: "jstring \<Rightarrow> int \<Rightarrow> product list \<Rightarrow> product list" where
  "finalResultsOf searchQuery maxResults rawResults =
     take 5
       (filterAndRankProducts
          (deduplicateByWebsite (filter (\<lambda>p. \<not> invalidPrice (price p)) rawResults))
          searchQuery maxResults)"

record filterState =
  keptPlatforms :: "(jstring \<times> platformData) list"
  total :: nat
  lowest :: "product option"

definition filterStep :: "jstring \<Rightarrow> int \<Rightarrow> filterState \<Rightarrow> jstring \<times> platformData \<Rightarrow> filterState" where
  "filterStep searchQuery maxResults st entry =
     (case entry of (platformName, platformData) \<Rightarrow>
        if toLowerCase platformName \<notin> set allowedWebsites then st
        else
          (let rawResults = results platformData;
               rawCount = length rawResults;
               finalResults = finalResultsOf searchQuery maxResults rawResults
           in \<lparr> keptPlatforms = keptPlatforms st @
                   [(platformName,
                     platformData\<lparr> results := finalResults,
                                   count := length finalResults,
                                   rejectedCount := Some (int rawCount - int (length finalResults)) \<rparr>)],
                 total = total st + length finalResults,
                 lowest = foldl (trackLowest platformName) (lowest st) finalResults \<rparr>))"

definition applyRelevanceFilter :: "aggregated \<Rightarrow> jstring \<Rightarrow> int \<Rightarrow> aggregated" where
  "applyRelevanceFilter aggregatedResults searchQuery maxResults =
     (let st = foldl (filterStep searchQuery maxResults)
                 \<lparr> keptPlatforms = [], total = 0, lowest = None \<rparr>
                 (platforms aggregatedResults)
      in aggregatedResults\<lparr> platforms := keptPlatforms st,
                             totalResults := total st,
                             lowestPrice := lowest st \<rparr>)"

text \<open>\<open>compareProducts\<close> and \<open>applySorting\<close>.\<close>

definition compareProducts :: "product \<Rightarrow> product \<Rightarrow> jsnum" where
  "compareProducts a b =
     (let priceA = (case price a of None \<Rightarrow> PosInf | Some n \<Rightarrow> n);
          priceB = (case price b of None \<Rightarrow> PosInf | Some n \<Rightarrow> n)
      in if js_neq priceA priceB then js_sub priceA priceB
         else
           (let availA = (if availability a then 0 else 1);
                availB = (if availability b then 0 else (1::rat))
            in if availA \<noteq> availB then Fin (availA - availB)
               else
                 (let srcA = (case map_of sourcePriority (if platform a \<noteq> [] then platform a else source a) of
                                None \<Rightarrow> 99 | Some n \<Rightarrow> n);
                      srcB = (case map_of sourcePriority (if platform b \<noteq> [] then platform b else source b) of
                                None \<Rightarrow> 99 | Some n \<Rightarrow> n)
                  in Fin (srcA - srcB))))"

definition applySorting :: "aggregated \<Rightarrow> aggregated" where
  "applySorting aggregatedResults =
     (let sorted = map (\<lambda>(platformName, d).
                          (platformName,
                           if results d \<noteq> [] then d\<lparr>results := js_sort compareProducts (results d)\<rparr> else d))
                     (platforms aggregatedResults);
          allProducts = concat (map (\<lambda>(platformName, d). results d) sorted)
      in aggregatedResults\<lparr> platforms := sorted,
                             sortedAllProducts := Some (js_sort compareProducts allProducts) \<rparr>)"

text \<open>\<open>SearchService.searchAll\<close>; writing the cache is a side effect on the database that
  does not touch the result.\<close>

definition searchAll :: "(jstring \<times> scraper) list \<Rightarrow> jstring \<Rightarrow> int \<Rightarrow> aggregated" where
  "searchAll scrapers searchQuery maxResults =
     applySorting (applyRelevanceFilter (registry_searchAll scrapers searchQuery maxResults) searchQuery maxResults)"

section \<open>Notions used to state the results\<close>

text \<open>What \<open>applyRelevanceFilter\<close> makes of one property of \<open>platforms\<close> that it keeps, and
  the test that decides whether it keeps it.\<close>

definition rewritten :: "jstring \<Rightarrow> int \<Rightarrow> jstring \<times> platformData \<Rightarrow> jstring \<times> platformData" where
  "rewritten q m entry =
     (fst entry,
      (snd entry)\<lparr> results := finalResultsOf q m (results (snd entry)),
                   count := length (finalResultsOf q m (results (snd entry))),
                   rejectedCount := Some (int (length (results (snd entry))) -
                                          int (length (finalResultsOf q m (results (snd entry))))) \<rparr>)"

definition allowed :: "jstring \<times> platformData \<Rightarrow> bool" where
  "allowed entry = (toLowerCase (fst entry) \<in> set allowedWebsites)"

text \<open>The products retained in an aggregated result, over all platforms.\<close>

definition retained :: "aggregated \<Rightarrow> product list" where
  "retained agg = concat (map (\<lambda>(n, d). results d) (platforms agg))"

text \<open>The products kept so far by the loop of \<open>applyRelevanceFilter\<close>.\<close>

definition keptProducts :: "filterState \<Rightarrow> product list" where
  "keptProducts st = concat (map (\<lambda>(n, d). results d) (keptPlatforms st))"

text \<open>\<open>l\<close> carries the lowest price among the products \<open>ps\<close>: its price is the price of
  one of them and is at most the price of each.\<close>

definition lowestAmong :: "product \<Rightarrow> product list \<Rightarrow> bool" where
  "lowestAmong l ps =
     (list_ex (\<lambda>p. price l = price p) ps \<and>
      list_all (\<lambda>p. js_le (toNumber (price l)) (toNumber (price p))) ps)"

text \<open>The field \<open>lowestPrice\<close> against the retained products: absent exactly when nothing
  is retained, and otherwise a product with the lowest retained price.\<close>

definition lowestOK :: "product option \<Rightarrow> product list \<Rightarrow> bool" where
  "lowestOK lo ps = (case lo of None \<Rightarrow> ps = [] | Some l \<Rightarrow> ps \<noteq> [] \<and> lowestAmong l ps)"

definition lowestPriceCorrect :: "aggregated \<Rightarrow> bool" where
  "lowestPriceCorrect agg = lowestOK (lowestPrice agg) (retained agg)"

text \<open>The events of one failed HTTP attempt of \<open>makeRequest\<close>, which is followed by its
  back-off delay unless it is the attempt numbered \<open>maxRetries\<close>; and the events of the
  failed attempts 1 to \<open>k\<close>.\<close>

definition attemptEvents :: "int \<Rightarrow> int \<Rightarrow> event list" where
  "attemptEvents maxRetries i =
     HttpAttempt i # (if i < maxRetries then [Delay (1000 * 2 ^ nat (i - 1))] else [])"

definition attemptsTrace :: "int \<Rightarrow> int \<Rightarrow> event list" where
  "attemptsTrace maxRetries k = concat (map (attemptEvents maxRetries) [1..k])"

text \<open>The number of HTTP attempts and of browser fetches in a trace.\<close>

fun isHttpAttempt :: "event \<Rightarrow> bool" where
  "isHttpAttempt (HttpAttempt i) = True"
| "isHttpAttempt (Delay ms) = False"
| "isHttpAttempt BrowserFetch = False"

definition lightAttempts :: "event list \<Rightarrow> nat" where
  "lightAttempts trace = length (filter isHttpAttempt trace)"

definition heavyAttempts :: "event list \<Rightarrow> nat" where
  "heavyAttempts trace = length (filter (\<lambda>e. e = BrowserFetch) trace)"

section \<open>Example inputs\<close>

text \<open>The price text of a product card: a list price, a selling price and a discount.\<close>

definition sampleCard :: jstring where
  "sampleCard = js ''MRP '' @ RUPEE # js ''2,499 '' @ RUPEE # js ''1,999 Rs. 50 off''"

text \<open>
  Three sources answering the query \<open>iPhone 15\<close>: the first returns an accessory with a
  price below the threshold and a phone, the second fails, the third returns a phone.
\<close>

definition demoProduct :: "string \<Rightarrow> string \<Rightarrow> jsnum option \<Rightarrow> product" where
  "demoProduct site t pr =
     \<lparr> source = js site, platform = js site, siteName = js site,
       product_name = js t, title = js t, productTitle = js t,
       price = pr, currency = js ''INR'',
       product_url = None, url = None, productUrl = None,
       image_url = None, imageUrl = None,
       availability = True, inStock = True,
       specs = [], description = js t \<rparr>"

definition siliconeCase :: product where
  "siliconeCase = demoProduct ''amazon'' ''iPhone 15 Pro Max Silicone Case'' (Some (Fin 50))"

definition iphoneAmazon :: product where
  "iphoneAmazon = demoProduct ''amazon'' ''Apple iPhone 15 (128GB) Black'' (Some (Fin 79900))"

definition iphoneMyntra :: product where
  "iphoneMyntra = demoProduct ''myntra'' ''Apple iPhone 15 (128GB) Black'' (Some (Fin 74999))"

definition amazonSearch :: scraper where
  "amazonSearch q n = Inr [siliconeCase, iphoneAmazon]"

definition flipkartSearch :: scraper where
  "flipkartSearch q n = Inl (Error (js ''Flipkart returned empty/blocked response''))"

definition myntraSearch :: scraper where
  "myntraSearch q n = Inr [iphoneMyntra]"

definition demoRegistry :: "(jstring \<times> scraper) list" where
  "demoRegistry =
     [(js ''amazon'', amazonSearch), (js ''flipkart'', flipkartSearch), (js ''myntra'', myntraSearch)]"

definition demoQuery :: jstring where
  "demoQuery = js ''iPhone 15''"

text \<open>The entry of the failing source, and the entry of the first source in the final
  result.\<close>

definition demoFailure :: platformData where
  "demoFailure = \<lparr> success = False, checked = True, count = 0, results = [],
       error = Some (js ''Flipkart returned empty/blocked response''), rejectedCount = None \<rparr>"

definition demoAmazonEntry :: platformData where
  "demoAmazonEntry = \<lparr> success = True, checked = True, count = 1, results = [iphoneAmazon],
       error = None, rejectedCount = Some 1 \<rparr>"

text \<open>Every HTTP attempt times out and the browser cannot navigate.\<close>

definition alwaysTimeout :: "int \<Rightarrow> js_error + jstring" where
  "alwaysTimeout i = Inl (Error (js ''timeout of 30000ms exceeded''))"

definition navigationFailed :: "js_error + jstring" where
  "navigationFailed = Inl (Error (js ''Navigation timeout of 30000 ms exceeded''))"

text \<open>The first HTTP attempt times out and the second one succeeds.\<close>

definition secondAttemptSucceeds :: "int \<Rightarrow> js_error + jstring" where
  "secondAttemptSucceeds i =
     (if i = 2 then Inr (js ''<html></html>'') else Inl (Error (js ''timeout of 30000ms exceeded'')))"

text \<open>Raw results as a scraper collects them: one in stock, one sold out, one with a price
  below the threshold, one without any availability.\<close>

definition rawResultOf :: "string \<Rightarrow> rat \<Rightarrow> jsval \<Rightarrow> rawResult" where
  "rawResultOf t pr av =
     \<lparr> raw_title = Some (js t), raw_price = Some (Fin pr), raw_url = Some (js ''https://www.amazon.in/dp/B0CHX1W1XY''),
       raw_imageUrl = None, raw_availability = av, raw_specs = None, raw_description = None \<rparr>"

definition demoRawResults :: "rawResult list" where
  "demoRawResults =
     [rawResultOf ''Apple iPhone 15 (128GB) Black'' 79900 (Str (js ''available'')),
      rawResultOf ''Apple iPhone 15 (128GB) Blue'' 74999 (Str (js ''out_of_stock'')),
      rawResultOf ''iPhone 15 Pro Max Silicone Case'' 50 (Str (js ''available'')),
      rawResultOf ''Apple iPhone 15 (256GB) Pink'' 89900 Undefined]"

text \<open>A listing of one website with two colour variants of a phone and a third entry that
  names no colour.\<close>

definition galaxyBlack :: product where
  "galaxyBlack = demoProduct ''amazon'' ''Samsung Galaxy S24 Ultra (Black)'' (Some (Fin 129999))"

definition galaxyBlue :: product where
  "galaxyBlue = demoProduct ''amazon'' ''Samsung Galaxy S24 Ultra (Blue)'' (Some (Fin 129999))"

definition galaxyPlain :: product where
  "galaxyPlain = demoProduct ''amazon'' ''Samsung Galaxy S24 Ultra'' (Some (Fin 124999))"

text \<open>A source that returns two colour variants of the phone, which are not duplicates of
  each other and are both relevant to the query.\<close>

definition variantBlack :: product where
  "variantBlack = demoProduct ''flipkart'' ''Apple iPhone 15 (Black, 128 GB)'' (Some (Fin 79900))"

definition variantBlue :: product where
  "variantBlue = demoProduct ''flipkart'' ''Apple iPhone 15 (Blue, 128 GB)'' (Some (Fin 79900))"

definition variantSearch :: scraper where
  "variantSearch q n = Inr [variantBlack, variantBlue]"

definition variantRegistry :: "(jstring \<times> scraper) list" where
  "variantRegistry = [(js ''flipkart'', variantSearch)]"

text \<open>The entry of that source in the final result when the limit is 1.\<close>

definition strictEntry :: platformData where
  "strictEntry = \<lparr> success = True, checked = True, count = 1, results = [variantBlack],
       error = None, rejectedCount = Some 1 \<rparr>"

section \<open>Numbers, sorting and strings: basic facts\<close>

lemmas char_defs = cu_def js_def RUPEE_def isDigit_def isSpace_def isLower_def isUpper_def isWordChar_def

lemma js_empty_iff: "js s = [] \<longleftrightarrow> s = []"
  by (simp add: js_def)

lemma js_inject: "js a = js b \<longleftrightarrow> a = b"
proof -
  have "inj (cu :: char \<Rightarrow> nat)"
    unfolding cu_def [abs_def] by (rule inj_of_char)
  then show ?thesis by (simp add: js_def inj_map_eq_map)
qed

lemma js_lt_sub: "\<not> isNaN a \<Longrightarrow> \<not> isNaN b \<Longrightarrow> js_lt (Fin 0) (js_sub a b) = js_lt b a"
  by (cases a; cases b) auto

lemma js_le_refl: "\<not> isNaN a \<Longrightarrow> js_le a a"
  by (cases a) auto

lemma js_le_trans: "js_le a b \<Longrightarrow> js_le b c \<Longrightarrow> js_le a c"
  by (cases a; cases b; cases c) auto

lemma js_lt_imp_le: "js_lt a b \<Longrightarrow> js_le a b"
  by (cases a; cases b) auto

lemma js_not_lt: "\<not> isNaN a \<Longrightarrow> \<not> isNaN b \<Longrightarrow> \<not> js_lt a b \<Longrightarrow> js_le b a"
  by (cases a; cases b) auto

lemma js_le_not_NaN: "js_le a b \<Longrightarrow> \<not> isNaN a \<and> \<not> isNaN b"
  by (cases a; cases b) auto

lemma js_insert_set: "set (js_insert cmp x ys) = insert x (set ys)"
  by (induction ys) auto

lemma js_sort_set: "set (js_sort cmp xs) = set xs"
  by (induction xs) (auto simp: js_sort_def js_insert_set)

lemma js_sort_length: "length (js_sort cmp xs) = length xs"
proof -
  have ins: "length (js_insert cmp x ys) = Suc (length ys)" for x ys
    by (induction ys) auto
  show ?thesis by (induction xs) (auto simp: js_sort_def ins)
qed

lemma js_insert_hd:
  "hd (js_insert cmp x ys) = (if ys = [] then x else if js_lt (Fin 0) (cmp x (hd ys)) then hd ys else x)"
  by (cases ys) auto

lemma hd_js_sort_least:
  assumes "xs \<noteq> []" and "\<forall>x\<in>set xs. \<not> isNaN x"
  shows "hd (js_sort js_sub xs) \<in> set xs \<and> (\<forall>x\<in>set xs. js_le (hd (js_sort js_sub xs)) x)"
  using assms
proof (induction xs)
  case Nil
  then show ?case by simp
next
  case (Cons x xs)
  show ?case
  proof (cases "xs = []")
    case True
    with Cons.prems show ?thesis by (simp add: js_sort_def js_le_refl)
  next
    case False
    define h where "h = hd (js_sort js_sub xs)"
    from False Cons have h: "h \<in> set xs" "\<forall>y\<in>set xs. js_le h y"
      by (auto simp: h_def)
    from False have ne: "js_sort js_sub xs \<noteq> []"
      using js_sort_set [of js_sub xs] by auto
    have nn: "\<not> isNaN x" "\<not> isNaN h" using Cons.prems h by auto
    have step: "js_sort js_sub (x # xs) = js_insert js_sub x (js_sort js_sub xs)"
      by (simp add: js_sort_def)
    have hd_eq: "hd (js_sort js_sub (x # xs)) = (if js_lt h x then h else x)"
      unfolding step js_insert_hd using ne nn by (simp add: h_def js_lt_sub)
    show ?thesis
    proof (cases "js_lt h x")
      case True
      with hd_eq h show ?thesis by (auto intro: js_lt_imp_le)
    next
      case lt: False
      then have "js_le x h" using nn by (simp add: js_not_lt)
      with hd_eq lt h nn show ?thesis by (auto intro: js_le_trans js_le_refl)
    qed
  qed
qed

lemma startsWith_append: "startsWith (m @ b) m"
  by (induction m) auto

lemma includes_str_append: "includes_str (a @ m @ b) m"
proof (induction a)
  case Nil
  show ?case by (cases "m @ b") (use startsWith_append [of m b] in auto)
next
  case (Cons c a)
  then show ?case by simp
qed

lemma set_slice0: "set (slice0 xs e) \<subseteq> set xs"
  by (auto simp: slice0_def dest: in_set_takeD)

lemma length_slice0: "0 \<le> e \<Longrightarrow> length (slice0 xs e) \<le> nat e"
  by (simp add: slice0_def)

lemma slice0_singleton: "1 \<le> m \<Longrightarrow> slice0 [x] m = [x]"
  by (simp add: slice0_def)

section \<open>The price normalizer\<close>

lemmas price_defs = extractPrice_def candidatePrices_def rupeeMatches_def rsAt_def rupeeAt_def isRs_def
  priceGroup_def removeCommas_def parseFloat_def exponentPart_def digitsVal_def trim_def js_ge_def
  js_sort_def Let_def

lemma execAll_short: "length str < 2 \<Longrightarrow> execAll rupeeAt 0 str = [] \<and> execAll rsAt 0 str = []"
proof (cases str)
  case Nil
  then show ?thesis by simp
next
  case (Cons c cs)
  assume "length str < 2"
  with Cons have "cs = []" by simp
  with Cons show ?thesis
    by (simp add: rupeeAt_def rsAt_def isRs_def priceGroup_def)
qed

lemma rupeeMatches_short: "length str < 2 \<Longrightarrow> rupeeMatches str = []"
  by (simp add: rupeeMatches_def execAll_short)

lemma extractPrice_threshold: "extractPrice priceText = Some p \<Longrightarrow> js_ge p (Fin 100)"
proof (cases priceText)
  case None
  assume "extractPrice priceText = Some p"
  with None show ?thesis by (simp add: extractPrice_def)
next
  case (Some raw)
  assume ep: "extractPrice priceText = Some p"
  show ?thesis
  proof (cases "candidatePrices (trim raw) = []")
    case True
    with ep Some have "\<not> isNaN p \<and> \<not> js_le p (Fin 0) \<and> \<not> js_lt p (Fin 100)"
      by (auto simp: extractPrice_def Let_def split: if_splits)
    then show ?thesis by (cases p) (auto simp: js_ge_def)
  next
    case False
    with ep Some have "p = hd (js_sort js_sub (candidatePrices (trim raw)))"
      by (auto simp: extractPrice_def Let_def split: if_splits)
    moreover have "\<forall>x\<in>set (candidatePrices (trim raw)). \<not> isNaN x"
      by (simp add: candidatePrices_def)
    ultimately have "p \<in> set (candidatePrices (trim raw))"
      using hd_js_sort_least [OF False] by simp
    then show ?thesis by (simp add: candidatePrices_def)
  qed
qed

text \<open>
  Claim C2.  \<open>extractPrice\<close> returns \<open>null\<close> for the rupee sign followed by \<open>1\<close>, for
  \<open>1\<close>, for the empty string and for \<open>Rs. 1\<close>; it returns 79900 for the rupee sign
  followed by \<open>79,900\<close>, and 1499 (not 1.499) for \<open>1,499\<close>.
\<close>

theorem extractPrice_examples:
  "extractPrice (Some (RUPEE # js ''1'')) = None \<and>
   extractPrice (Some (js ''1'')) = None \<and>
   extractPrice (Some (js '''')) = None \<and>
   extractPrice (Some (js ''Rs. 1'')) = None \<and>
   extractPrice (Some (RUPEE # js ''79,900'')) = Some (Fin 79900) \<and>
   extractPrice (Some (js ''1,499'')) = Some (Fin 1499)"
  by (simp add: price_defs char_defs)

text \<open>
  Claim C8.  When the trimmed text has a match of one of the two currency-symbol patterns
  whose value is at least 100, \<open>extractPrice\<close> returns the lowest value among those
  matches; and whatever the input, a value below 100 is never returned, so a
  symbol-anchored match below the threshold never is.
\<close>

theorem extractPrice_lowest_symbol_anchored:
  "((\<exists>v\<in>set (rupeeMatches (trim t)). js_ge v (Fin 100)) \<longrightarrow>
      (\<exists>p. extractPrice (Some t) = Some p \<and> p \<in> set (rupeeMatches (trim t)) \<and>
           js_ge p (Fin 100) \<and>
           (\<forall>v\<in>set (rupeeMatches (trim t)). js_ge v (Fin 100) \<longrightarrow> js_le p v))) \<and>
   (\<forall>p. extractPrice (Some t) = Some p \<longrightarrow> js_ge p (Fin 100))"
proof (intro conjI impI allI)
  fix p assume "extractPrice (Some t) = Some p"
  then show "js_ge p (Fin 100)" by (rule extractPrice_threshold)
next
  define str where "str = trim t"
  assume "\<exists>v\<in>set (rupeeMatches (trim t)). js_ge v (Fin 100)"
  then obtain v where v: "v \<in> set (rupeeMatches str)" "js_ge v (Fin 100)"
    by (auto simp: str_def)
  then have nn: "\<not> isNaN v" using js_le_not_NaN by (auto simp: js_ge_def)
  have cands: "set (candidatePrices str) = {w \<in> set (rupeeMatches str). js_ge w (Fin 100)}"
    using js_le_not_NaN by (auto simp: candidatePrices_def js_ge_def)
  with v have ne: "candidatePrices str \<noteq> []" by auto
  have len: "\<not> length str < 2"
    using v rupeeMatches_short [of str] by auto
  have ep: "extractPrice (Some t) = Some (hd (js_sort js_sub (candidatePrices str)))"
    using ne len by (simp add: extractPrice_def str_def Let_def)
  have "\<forall>x\<in>set (candidatePrices str). \<not> isNaN x"
    by (simp add: candidatePrices_def)
  from hd_js_sort_least [OF ne this] cands ep
  show "\<exists>p. extractPrice (Some t) = Some p \<and> p \<in> set (rupeeMatches (trim t)) \<and>
           js_ge p (Fin 100) \<and>
           (\<forall>v\<in>set (rupeeMatches (trim t)). js_ge v (Fin 100) \<longrightarrow> js_le p v)"
    by (auto simp: str_def)
qed

lemma sampleCard_matches: "rupeeMatches (trim sampleCard) = [Fin 2499, Fin 1999, Fin 50]"
  by (simp add: sampleCard_def price_defs char_defs)

text \<open>
  The theorem on a product card with a list price, a selling price and a small discount
  amount: the selling price is returned.
\<close>

theorem extractPrice_lowest_symbol_anchored_witness:
  "rupeeMatches (trim sampleCard) = [Fin 2499, Fin 1999, Fin 50] \<and>
   extractPrice (Some sampleCard) = Some (Fin 1999)"
proof -
  note m = sampleCard_matches
  from extractPrice_lowest_symbol_anchored [of sampleCard]
  obtain p where p: "extractPrice (Some sampleCard) = Some p" "p \<in> set (rupeeMatches (trim sampleCard))"
     "js_ge p (Fin 100)" "\<forall>v\<in>set (rupeeMatches (trim sampleCard)). js_ge v (Fin 100) \<longrightarrow> js_le p v"
    by (auto simp: m js_ge_def)
  then have "p = Fin 1999" by (auto simp: m js_ge_def)
  with p m show ?thesis by simp
qed

section \<open>The relevance score\<close>

lemmas text_defs = normalizeText_def tokenize_def toLowerCase_def lowerUnit_def collapseSpaces_def trim_def

lemmas word_lists = stopWords_def knownBrands_def accessoryKeywords_def apparelKeywords_def
  electronicsKeywords_def colors_def brandAliases_def isColor_def

lemma score_case: "scoreRelevance (js ''iPhone 15'') (js ''iPhone 15 Pro Max Silicone Case'') = - 1"
  by (simp add: scoreRelevance_def foundPhrase_def text_defs word_lists char_defs Let_def)

lemma score_phone: "scoreRelevance (js ''iPhone 15'') (js ''Apple iPhone 15 (128GB) Black'') = 14"
  by (simp add: scoreRelevance_def foundPhrase_def text_defs word_lists char_defs Let_def)

text \<open>
  Claim C3.  For the query \<open>iPhone 15\<close>, \<open>scoreRelevance\<close> rejects the title
  \<open>iPhone 15 Pro Max Silicone Case\<close> (a score of at most 0: the accessory keyword \<open>case\<close>
  occurs in it) and accepts the title \<open>Apple iPhone 15 (128GB) Black\<close> (a positive
  score).
\<close>

theorem scoreRelevance_iphone15:
  "scoreRelevance (js ''iPhone 15'') (js ''iPhone 15 Pro Max Silicone Case'') \<le> 0 \<and>
   0 < scoreRelevance (js ''iPhone 15'') (js ''Apple iPhone 15 (128GB) Black'')"
  by (simp add: score_case score_phone)

section \<open>Canonical products\<close>

text \<open>
  Claim C10.  Every product emitted by \<open>normalizeResults\<close> has the currency \<open>INR\<close>, and
  its \<open>inStock\<close> is false exactly when the availability of the raw result it comes from
  is the string \<open>out_of_stock\<close>; any other availability, a missing one included, gives
  \<open>inStock = true\<close>, and \<open>availability\<close> has the same value.  The emitted products are, in
  order, the raw results that pass the price check.
\<close>

theorem normalizeResults_currency_and_stock:
  "list_all2 (\<lambda>result p.
       currency p = js ''INR'' \<and>
       (inStock p = False \<longleftrightarrow> raw_availability result = Str (js ''out_of_stock'')) \<and>
       availability p = inStock p)
     (filter (\<lambda>result. \<not> invalidPrice (raw_price result)) rawResults)
     (normalizeResults platformName rawResults)"
  by (simp add: normalizeResults_def list_all2_map2 toProduct_def list_all2_same)

lemma demoRaw_kept:
  "filter (\<lambda>result. \<not> invalidPrice (raw_price result)) demoRawResults =
     [rawResultOf ''Apple iPhone 15 (128GB) Black'' 79900 (Str (js ''available'')),
      rawResultOf ''Apple iPhone 15 (128GB) Blue'' 74999 (Str (js ''out_of_stock'')),
      rawResultOf ''Apple iPhone 15 (256GB) Pink'' 89900 Undefined]"
  by (simp add: demoRawResults_def rawResultOf_def invalidPrice_def)

text \<open>
  The theorem on four raw results: one in stock, one sold out, one dropped for its price,
  one without availability.
\<close>

theorem normalizeResults_currency_and_stock_witness:
  "map inStock (normalizeResults (js ''amazon'') demoRawResults) = [True, False, True] \<and>
   map availability (normalizeResults (js ''amazon'') demoRawResults) = [True, False, True] \<and>
   map currency (normalizeResults (js ''amazon'') demoRawResults) = [js ''INR'', js ''INR'', js ''INR'']"
proof -
  have ne: "js ''available'' \<noteq> js ''out_of_stock''" by (simp add: char_defs)
  from normalizeResults_currency_and_stock [of demoRawResults "js ''amazon''"]
  obtain p1 p2 p3 where "normalizeResults (js ''amazon'') demoRawResults = [p1, p2, p3]"
    and "currency p1 = js ''INR''" "inStock p1" "availability p1"
    and "currency p2 = js ''INR''" "\<not> inStock p2" "\<not> availability p2"
    and "currency p3 = js ''INR''" "inStock p3" "availability p3"
    unfolding demoRaw_kept by (auto simp: list_all2_Cons1 rawResultOf_def ne)
  then show ?thesis by simp
qed

section \<open>Transport: retries, back-off and fallback\<close>

lemma attemptsTrace_alt: "attemptsTrace n k = concat (map (attemptEvents n) [1..k])"
  by (simp add: attemptsTrace_def)

lemma loop_all_fail:
  assumes "\<forall>i. a \<le> i \<and> i \<le> n \<longrightarrow> axios i = Inl (errs i)"
  shows "makeRequestLoop pf n axios a le tr =
           (tr @ concat (map (attemptEvents n) [a..n]),
            Inl (giveUp pf n (if a \<le> n then Some (errs n) else le)))"
  using assms
proof (induction pf n axios a le tr rule: makeRequestLoop.induct)
  case (1 pf n axios a le tr)
  show ?case
  proof (cases "a \<le> n")
    case False
    then show ?thesis
      by (subst makeRequestLoop.simps) simp
  next
    case True
    with "1.prems" have fail: "axios a = Inl (errs a)" by simp
    have rest: "\<forall>i. a + 1 \<le> i \<and> i \<le> n \<longrightarrow> axios i = Inl (errs i)"
      using "1.prems" by simp
    have ih: "makeRequestLoop pf n axios (a + 1) (Some (errs a))
                (tr @ HttpAttempt a # (if a < n then [Delay (1000 * 2 ^ nat (a - 1))] else [])) =
              ((tr @ HttpAttempt a # (if a < n then [Delay (1000 * 2 ^ nat (a - 1))] else []))
                  @ concat (map (attemptEvents n) [a + 1..n]),
               Inl (giveUp pf n (if a + 1 \<le> n then Some (errs n) else Some (errs a))))"
      using "1.IH" [OF True fail rest] .
    have up: "[a..n] = a # [a + 1..n]" using True by (simp add: upto_rec1)
    have "a + 1 \<le> n \<or> a = n" using True by linarith
    then have last: "(if a + 1 \<le> n then Some (errs n) else Some (errs a)) = Some (errs n)"
      by auto
    show ?thesis
      using True fail
      by (subst makeRequestLoop.simps) (simp add: ih up last attemptEvents_def)
  qed
qed

lemma loop_success:
  assumes "a \<le> k" and "k \<le> n"
    and "\<forall>i. a \<le> i \<and> i < k \<longrightarrow> axios i = Inl (errs i)"
    and "axios k = Inr page"
  shows "makeRequestLoop pf n axios a le tr =
           (tr @ concat (map (attemptEvents n) [a..k - 1]) @ [HttpAttempt k], Inr page)"
  using assms
proof (induction pf n axios a le tr rule: makeRequestLoop.induct)
  case (1 pf n axios a le tr)
  from "1.prems" have an: "a \<le> n" by simp
  show ?case
  proof (cases "a = k")
    case True
    with "1.prems" an show ?thesis
      by (subst makeRequestLoop.simps) simp
  next
    case False
    with "1.prems" have lt: "a < k" by simp
    with "1.prems" have fail: "axios a = Inl (errs a)" by simp
    have rest: "\<forall>i. a + 1 \<le> i \<and> i < k \<longrightarrow> axios i = Inl (errs i)"
      using "1.prems" by simp
    have ih: "makeRequestLoop pf n axios (a + 1) (Some (errs a))
                (tr @ HttpAttempt a # (if a < n then [Delay (1000 * 2 ^ nat (a - 1))] else [])) =
              ((tr @ HttpAttempt a # (if a < n then [Delay (1000 * 2 ^ nat (a - 1))] else []))
                  @ concat (map (attemptEvents n) [a + 1..k - 1]) @ [HttpAttempt k], Inr page)"
      using "1.IH" [OF an fail _ "1.prems"(2) rest "1.prems"(4)] lt by simp
    have up: "[a..k - 1] = a # [a + 1..k - 1]" using lt by (simp add: upto_rec1)
    show ?thesis
      using an fail
      by (subst makeRequestLoop.simps) (simp add: ih up attemptEvents_def)
  qed
qed

lemma lightAttempts_attemptEvents: "lightAttempts (concat (map (attemptEvents n) xs)) = length xs"
  by (induction xs) (simp_all add: lightAttempts_def attemptEvents_def)

lemma heavyAttempts_attemptEvents: "heavyAttempts (concat (map (attemptEvents n) xs)) = 0"
  by (induction xs) (simp_all add: heavyAttempts_def attemptEvents_def)

lemma lightAttempts_attemptsTrace: "lightAttempts (attemptsTrace n k @ [BrowserFetch]) = nat k"
proof -
  have "lightAttempts (attemptsTrace n k @ [BrowserFetch]) = lightAttempts (attemptsTrace n k)"
    by (simp add: lightAttempts_def)
  also have "\<dots> = length [1..k]"
    unfolding attemptsTrace_def by (rule lightAttempts_attemptEvents)
  also have "\<dots> = nat k" by simp
  finally show ?thesis .
qed

lemma heavyAttempts_attemptsTrace: "heavyAttempts (attemptsTrace n k @ [BrowserFetch]) = 1"
proof -
  have "heavyAttempts (attemptsTrace n k @ [BrowserFetch]) = heavyAttempts (attemptsTrace n k) + 1"
    by (simp add: heavyAttempts_def)
  also have "heavyAttempts (attemptsTrace n k) = 0"
    unfolding attemptsTrace_def by (rule heavyAttempts_attemptEvents)
  finally show ?thesis by simp
qed

text \<open>
  Claim C9, as the code has it.  Let \<open>maxRetries\<close> be at least 1.  \<open>smartFetch\<close> runs
  \<open>makeRequest\<close> first.  When every HTTP attempt from 1 to \<open>maxRetries\<close> fails, exactly
  these attempts are made, \<open>maxRetries\<close> in all, attempt \<open>i\<close> being followed by a delay of
  \<open>1000 * 2 ^ (i - 1)\<close> milliseconds unless it is the last one; then the browser is tried
  exactly once, and when it fails too the error thrown has a message that contains the
  message of the error of \<open>makeRequest\<close> (which itself ends with the message of the last
  HTTP error) and the message of the browser's error.  When attempt \<open>k\<close> is the first to
  succeed, the attempts stop there and the browser is not used.
\<close>

theorem smartFetch_retry_then_fallback:
  assumes "1 \<le> maxRetries"
  shows
  "((\<forall>i. 1 \<le> i \<and> i \<le> maxRetries \<longrightarrow> axios i = Inl (errs i)) \<longrightarrow>
      (\<exists>axiosError.
         makeRequest pf maxRetries axios = (attemptsTrace maxRetries maxRetries, Inl axiosError) \<and>
         message axiosError = js ''Failed to fetch from '' @ pf @ js '' after '' @ showInt maxRetries @
                              js '' attempts: '' @ message (errs maxRetries) \<and>
         includes_str (message axiosError) (message (errs maxRetries)) \<and>
         fst (smartFetch pf maxRetries axios browser) = attemptsTrace maxRetries maxRetries @ [BrowserFetch] \<and>
         lightAttempts (fst (smartFetch pf maxRetries axios browser)) = nat maxRetries \<and>
         heavyAttempts (fst (smartFetch pf maxRetries axios browser)) = 1 \<and>
         (\<forall>html. browser = Inr html \<longrightarrow> snd (smartFetch pf maxRetries axios browser) = Inr html) \<and>
         (\<forall>puppeteerError. browser = Inl puppeteerError \<longrightarrow>
            (\<exists>e. snd (smartFetch pf maxRetries axios browser) = Inl e \<and>
                 message e = js ''All fetch methods failed for '' @ pf @ js '': axios('' @
                             message axiosError @ js ''), puppeteer('' @ message puppeteerError @ js '')'' \<and>
                 includes_str (message e) (message axiosError) \<and>
                 includes_str (message e) (message (errs maxRetries)) \<and>
                 includes_str (message e) (message puppeteerError))))) \<and>
   (1 \<le> k \<and> k \<le> maxRetries \<and> (\<forall>i. 1 \<le> i \<and> i < k \<longrightarrow> axios i = Inl (errs i)) \<and> axios k = Inr page \<longrightarrow>
      smartFetch pf maxRetries axios browser = (attemptsTrace maxRetries (k - 1) @ [HttpAttempt k], Inr page))"
proof (intro conjI impI)
  assume fails: "\<forall>i. 1 \<le> i \<and> i \<le> maxRetries \<longrightarrow> axios i = Inl (errs i)"
  define axiosError where "axiosError = giveUp pf maxRetries (Some (errs maxRetries))"
  let ?light = "js ''Failed to fetch from '' @ pf @ js '' after '' @ showInt maxRetries @
                js '' attempts: '' @ message (errs maxRetries)"
  have mr: "makeRequest pf maxRetries axios = (attemptsTrace maxRetries maxRetries, Inl axiosError)"
    using loop_all_fail [OF fails, of pf None "[]"] assms
    by (simp add: makeRequest_def attemptsTrace_alt axiosError_def)
  have msg: "message axiosError = ?light"
    by (simp add: axiosError_def giveUp_def)
  have inc: "includes_str (message axiosError) (message (errs maxRetries))"
    using includes_str_append [of "js ''Failed to fetch from '' @ pf @ js '' after '' @
          showInt maxRetries @ js '' attempts: ''" "message (errs maxRetries)" "[]"]
    by (simp add: msg)
  have tr: "fst (smartFetch pf maxRetries axios browser) = attemptsTrace maxRetries maxRetries @ [BrowserFetch]"
    by (cases browser) (simp_all add: smartFetch_def mr)
  have la: "lightAttempts (fst (smartFetch pf maxRetries axios browser)) = nat maxRetries"
    unfolding tr by (rule lightAttempts_attemptsTrace)
  have ha: "heavyAttempts (fst (smartFetch pf maxRetries axios browser)) = 1"
    unfolding tr by (rule heavyAttempts_attemptsTrace)
  have ok: "\<forall>html. browser = Inr html \<longrightarrow> snd (smartFetch pf maxRetries axios browser) = Inr html"
    by (simp add: smartFetch_def mr)
  have both: "\<forall>puppeteerError. browser = Inl puppeteerError \<longrightarrow>
            (\<exists>e. snd (smartFetch pf maxRetries axios browser) = Inl e \<and>
                 message e = js ''All fetch methods failed for '' @ pf @ js '': axios('' @
                             message axiosError @ js ''), puppeteer('' @ message puppeteerError @ js '')'' \<and>
                 includes_str (message e) (message axiosError) \<and>
                 includes_str (message e) (message (errs maxRetries)) \<and>
                 includes_str (message e) (message puppeteerError))"
  proof (intro allI impI)
    fix puppeteerError assume b: "browser = Inl puppeteerError"
    let ?m = "js ''All fetch methods failed for '' @ pf @ js '': axios('' @
                message axiosError @ js ''), puppeteer('' @ message puppeteerError @ js '')''"
    have s: "snd (smartFetch pf maxRetries axios browser) = Inl (Error ?m)"
      by (simp add: smartFetch_def mr b)
    have i1: "includes_str ?m (message axiosError)"
      using includes_str_append [of "js ''All fetch methods failed for '' @ pf @ js '': axios(''"
          "message axiosError" "js ''), puppeteer('' @ message puppeteerError @ js '')''"]
      by simp
    have i2: "includes_str ?m (message puppeteerError)"
      using includes_str_append [of "js ''All fetch methods failed for '' @ pf @ js '': axios('' @
                message axiosError @ js ''), puppeteer(''" "message puppeteerError" "js '')''"]
      by simp
    have i3: "includes_str ?m (message (errs maxRetries))"
      using includes_str_append [of "js ''All fetch methods failed for '' @ pf @ js '': axios('' @
                js ''Failed to fetch from '' @ pf @ js '' after '' @ showInt maxRetries @
                js '' attempts: ''" "message (errs maxRetries)"
                "js ''), puppeteer('' @ message puppeteerError @ js '')''"]
      by (simp add: msg)
    from s i1 i2 i3 show "\<exists>e. snd (smartFetch pf maxRetries axios browser) = Inl e \<and> message e = ?m \<and>
        includes_str (message e) (message axiosError) \<and>
        includes_str (message e) (message (errs maxRetries)) \<and>
        includes_str (message e) (message puppeteerError)"
      by simp
  qed
  from mr msg inc tr la ha ok both
  show "\<exists>axiosError.
         makeRequest pf maxRetries axios = (attemptsTrace maxRetries maxRetries, Inl axiosError) \<and>
         message axiosError = js ''Failed to fetch from '' @ pf @ js '' after '' @ showInt maxRetries @
                              js '' attempts: '' @ message (errs maxRetries) \<and>
         includes_str (message axiosError) (message (errs maxRetries)) \<and>
         fst (smartFetch pf maxRetries axios browser) = attemptsTrace maxRetries maxRetries @ [BrowserFetch] \<and>
         lightAttempts (fst (smartFetch pf maxRetries axios browser)) = nat maxRetries \<and>
         heavyAttempts (fst (smartFetch pf maxRetries axios browser)) = 1 \<and>
         (\<forall>html. browser = Inr html \<longrightarrow> snd (smartFetch pf maxRetries axios browser) = Inr html) \<and>
         (\<forall>puppeteerError. browser = Inl puppeteerError \<longrightarrow>
            (\<exists>e. snd (smartFetch pf maxRetries axios browser) = Inl e \<and>
                 message e = js ''All fetch methods failed for '' @ pf @ js '': axios('' @
                             message axiosError @ js ''), puppeteer('' @ message puppeteerError @ js '')'' \<and>
                 includes_str (message e) (message axiosError) \<and>
                 includes_str (message e) (message (errs maxRetries)) \<and>
                 includes_str (message e) (message puppeteerError)))"
    by blast
next
  assume "1 \<le> k \<and> k \<le> maxRetries \<and> (\<forall>i. 1 \<le> i \<and> i < k \<longrightarrow> axios i = Inl (errs i)) \<and> axios k = Inr page"
  then have k: "1 \<le> k" "k \<le> maxRetries" "\<forall>i. 1 \<le> i \<and> i < k \<longrightarrow> axios i = Inl (errs i)" "axios k = Inr page"
    by auto
  show "smartFetch pf maxRetries axios browser = (attemptsTrace maxRetries (k - 1) @ [HttpAttempt k], Inr page)"
    using loop_success [OF k, of pf None "[]"]
    by (simp add: smartFetch_def makeRequest_def attemptsTrace_alt)
qed

text \<open>
  The theorem with three attempts: all of them timing out and the browser failing, and
  the second attempt succeeding.
\<close>

theorem smartFetch_retry_then_fallback_witness:
  "(1::int) \<le> defaultMaxRetries \<and>
   smartFetch (js ''amazon'') defaultMaxRetries alwaysTimeout navigationFailed =
     ([HttpAttempt 1, Delay 1000, HttpAttempt 2, Delay 2000, HttpAttempt 3, BrowserFetch],
      Inl (Error (js ''All fetch methods failed for amazon: axios(Failed to fetch from amazon after 3 attempts: timeout of 30000ms exceeded), puppeteer(Navigation timeout of 30000 ms exceeded)''))) \<and>
   smartFetch (js ''amazon'') defaultMaxRetries secondAttemptSucceeds navigationFailed =
     ([HttpAttempt 1, Delay 1000, HttpAttempt 2], Inr (js ''<html></html>''))"
  unfolding defaultMaxRetries_def
proof (intro conjI)
  show one: "(1::int) \<le> 3" by simp
  let ?timeout = "Error (js ''timeout of 30000ms exceeded'')"
  let ?nav = "Error (js ''Navigation timeout of 30000 ms exceeded'')"
  have fails: "\<forall>i. 1 \<le> i \<and> i \<le> 3 \<longrightarrow> alwaysTimeout i = Inl ((\<lambda>i. ?timeout) i)"
    by (simp add: alwaysTimeout_def)
  have tr: "attemptsTrace 3 3 = [HttpAttempt 1, Delay 1000, HttpAttempt 2, Delay 2000, HttpAttempt 3]"
    by (simp add: attemptsTrace_def attemptEvents_def upto_rec1)
  from smartFetch_retry_then_fallback [of 3 alwaysTimeout "\<lambda>i. ?timeout" "js ''amazon''" navigationFailed 1 "[]",
      OF one, THEN conjunct1, THEN mp, OF fails]
  obtain axiosError e where
    ae: "message axiosError = js ''Failed to fetch from '' @ js ''amazon'' @ js '' after '' @ showInt 3 @
                                 js '' attempts: '' @ message ?timeout"
    and f: "fst (smartFetch (js ''amazon'') 3 alwaysTimeout navigationFailed) = attemptsTrace 3 3 @ [BrowserFetch]"
    and s: "snd (smartFetch (js ''amazon'') 3 alwaysTimeout navigationFailed) = Inl e"
    and me: "message e = js ''All fetch methods failed for '' @ js ''amazon'' @ js '': axios('' @
                             message axiosError @ js ''), puppeteer('' @ message ?nav @ js '')''"
    by (auto simp: navigationFailed_def)
  have "e = Error (message e)" by simp
  also have "message e = js ''All fetch methods failed for amazon: axios(Failed to fetch from amazon after 3 attempts: timeout of 30000ms exceeded), puppeteer(Navigation timeout of 30000 ms exceeded)''"
    unfolding me ae by (simp add: js_def showInt_def showNat.simps cu_def)
  finally have e: "e = Error (js ''All fetch methods failed for amazon: axios(Failed to fetch from amazon after 3 attempts: timeout of 30000ms exceeded), puppeteer(Navigation timeout of 30000 ms exceeded)'')" .
  show "smartFetch (js ''amazon'') 3 alwaysTimeout navigationFailed =
     ([HttpAttempt 1, Delay 1000, HttpAttempt 2, Delay 2000, HttpAttempt 3, BrowserFetch],
      Inl (Error (js ''All fetch methods failed for amazon: axios(Failed to fetch from amazon after 3 attempts: timeout of 30000ms exceeded), puppeteer(Navigation timeout of 30000 ms exceeded)'')))"
    using f s e tr by (simp add: prod_eq_iff)
  have h: "(1::int) \<le> 2 \<and> (2::int) \<le> 3 \<and>
           (\<forall>i. 1 \<le> i \<and> i < 2 \<longrightarrow> secondAttemptSucceeds i = Inl ((\<lambda>i. ?timeout) i)) \<and>
           secondAttemptSucceeds 2 = Inr (js ''<html></html>'')"
    by (simp add: secondAttemptSucceeds_def)
  have tr1: "attemptsTrace 3 1 = [HttpAttempt 1, Delay 1000]"
    by (simp add: attemptsTrace_def attemptEvents_def upto_rec1)
  from smartFetch_retry_then_fallback [of 3 secondAttemptSucceeds "\<lambda>i. ?timeout" "js ''amazon''" navigationFailed
      2 "js ''<html></html>''", OF one, THEN conjunct2, THEN mp, OF h]
  show "smartFetch (js ''amazon'') 3 secondAttemptSucceeds navigationFailed =
     ([HttpAttempt 1, Delay 1000, HttpAttempt 2], Inr (js ''<html></html>''))"
    by (simp add: tr1)
qed

text \<open>
  \<open>maxRetries\<close> bounds the HTTP attempts, not the retries that follow the first
  attempt: with the default of 3 and every attempt timing out, the trace holds three HTTP
  attempts, the first one and two retries.  And with \<open>maxRetries = 0\<close>, which
  \<open>options.maxRetries ?? this.maxRetries\<close> passes on as it is, no HTTP attempt is made at
  all: the browser is the only transport tried, and the message of the final error holds
  the message of the \<open>TypeError\<close> that \<open>lastError.message\<close> raises, not that of an HTTP
  error.
\<close>

theorem smartFetch_attempts_counterexample:
  "lightAttempts (fst (smartFetch (js ''amazon'') defaultMaxRetries alwaysTimeout navigationFailed)) = 3 \<and>
   smartFetch (js ''amazon'') 0 alwaysTimeout navigationFailed =
     ([BrowserFetch],
      Inl (Error (js ''All fetch methods failed for amazon: axios(Cannot read properties of undefined (reading 'message')), puppeteer(Navigation timeout of 30000 ms exceeded)'')))"
proof
  have fails: "\<forall>i. 1 \<le> i \<and> i \<le> 3 \<longrightarrow> alwaysTimeout i = Inl ((\<lambda>i. Error (js ''timeout of 30000ms exceeded'')) i)"
    by (simp add: alwaysTimeout_def)
  have "fst (smartFetch (js ''amazon'') 3 alwaysTimeout navigationFailed) = attemptsTrace 3 3 @ [BrowserFetch]"
    using loop_all_fail [OF fails, of "js ''amazon''" None "[]"]
    by (simp add: smartFetch_def makeRequest_def attemptsTrace_def navigationFailed_def)
  then show "lightAttempts (fst (smartFetch (js ''amazon'') defaultMaxRetries alwaysTimeout navigationFailed)) = 3"
    by (simp add: defaultMaxRetries_def lightAttempts_attemptsTrace)
next
  have none: "makeRequest (js ''amazon'') 0 alwaysTimeout = ([], Inl undefinedMessage)"
    unfolding makeRequest_def by (subst makeRequestLoop.simps) (simp add: giveUp_def)
  have msg: "js ''All fetch methods failed for '' @ js ''amazon'' @ js '': axios('' @
               message undefinedMessage @ js ''), puppeteer('' @
               js ''Navigation timeout of 30000 ms exceeded'' @ js '')'' =
             js ''All fetch methods failed for amazon: axios(Cannot read properties of undefined (reading 'message')), puppeteer(Navigation timeout of 30000 ms exceeded)''"
    by (simp add: undefinedMessage_def js_def)
  show "smartFetch (js ''amazon'') 0 alwaysTimeout navigationFailed =
     ([BrowserFetch],
      Inl (Error (js ''All fetch methods failed for amazon: axios(Cannot read properties of undefined (reading 'message')), puppeteer(Navigation timeout of 30000 ms exceeded)'')))"
    unfolding smartFetch_def none navigationFailed_def using msg by simp
qed

section \<open>The registry\<close>

lemma searchPromise_fst: "fst (searchPromise q l e) = fst e"
  by (cases e) (simp add: searchPromise_def split: sum.splits)

lemma searchPromise_keys: "map (fst \<circ> searchPromise q l) es = map fst es"
  by (simp add: searchPromise_fst)

lemma objSet_fresh: "k \<notin> fst ` set obj \<Longrightarrow> objSet obj k v = obj @ [(k, v)]"
  by (simp add: objSet_def)

lemma aggregateStep_platforms:
  "fst e \<notin> fst ` set (platforms agg) \<Longrightarrow> platforms (aggregateStep agg e) = platforms agg @ [e]"
  by (cases e) (simp add: aggregateStep_def objSet_fresh)

lemma foldl_aggregateStep_platforms:
  assumes "distinct (map fst es)" and "fst ` set es \<inter> fst ` set (platforms agg) = {}"
  shows "platforms (foldl aggregateStep agg es) = platforms agg @ es"
  using assms
proof (induction es arbitrary: agg)
  case Nil
  show ?case by simp
next
  case (Cons e es)
  from Cons.prems have fresh: "fst e \<notin> fst ` set (platforms agg)" by auto
  have step: "platforms (aggregateStep agg e) = platforms agg @ [e]"
    by (rule aggregateStep_platforms [OF fresh])
  have "platforms (foldl aggregateStep (aggregateStep agg e) es) = platforms (aggregateStep agg e) @ es"
  proof (rule Cons.IH)
    show "distinct (map fst es)" using Cons.prems by simp
    show "fst ` set es \<inter> fst ` set (platforms (aggregateStep agg e)) = {}"
      using Cons.prems by (auto simp: step)
  qed
  then show ?case by (simp add: step)
qed

lemma registry_platforms:
  assumes "distinct (map fst scrapers)"
  shows "platforms (registry_searchAll scrapers q m) = map (searchPromise q (internalLimit m)) scrapers"
proof -
  from assms have "distinct (map fst (map (searchPromise q (internalLimit m)) scrapers))"
    by (simp add: searchPromise_keys)
  then show ?thesis
    by (simp add: registry_searchAll_def foldl_aggregateStep_platforms)
qed

lemma map_of_searchPromise_filter:
  "other \<noteq> name \<Longrightarrow>
     map_of (map (searchPromise q l) (filter (\<lambda>e. fst e \<noteq> name) scrapers)) other =
     map_of (map (searchPromise q l) scrapers) other"
proof (induction scrapers)
  case Nil
  show ?case by simp
next
  case (Cons e scrapers)
  obtain k v where kv: "searchPromise q l e = (k, v)" by (cases "searchPromise q l e")
  with searchPromise_fst [of q l e] have k: "k = fst e" by simp
  show ?case using Cons kv k by auto
qed

lemma source_errors_nonempty:
  "message (fetchFailed site axiosErr) \<noteq> [] \<and> message (blockedResponse site) \<noteq> []"
  by (simp add: fetchFailed_def blockedResponse_def js_empty_iff)

text \<open>
  Claim C4.  The errors that the registered scrapers throw carry a non-empty message
  (\<open>source_errors_nonempty\<close>).  When the search of one source throws such an error, the
  aggregated result of the registry still has an entry for every source, in the order of
  the registry; the entry of the failing source has \<open>success = false\<close>, no products, and
  a non-empty error message, the message of the thrown error; the entry of every other
  source is the one it has when the failing source is not registered.  The result is a
  value: nothing is thrown to the caller.
\<close>

theorem registry_isolates_failure:
  assumes "distinct (map fst scrapers)"
    and "(name, search) \<in> set scrapers"
    and "search q (internalLimit m) = Inl err"
    and "message err \<noteq> []"
  shows "map fst (platforms (registry_searchAll scrapers q m)) = map fst scrapers \<and>
         map_of (platforms (registry_searchAll scrapers q m)) name =
           Some \<lparr> success = False, checked = True, count = 0, results = [],
                  error = Some (message err), rejectedCount = None \<rparr> \<and>
         (\<exists>entry msg. map_of (platforms (registry_searchAll scrapers q m)) name = Some entry \<and>
            \<not> success entry \<and> results entry = [] \<and> error entry = Some msg \<and> msg \<noteq> []) \<and>
         (\<forall>other. other \<noteq> name \<longrightarrow>
            map_of (platforms (registry_searchAll scrapers q m)) other =
            map_of (platforms (registry_searchAll (filter (\<lambda>e. fst e \<noteq> name) scrapers) q m)) other)"
proof (intro conjI allI impI)
  note pl = registry_platforms [OF assms(1), of q m]
  show "map fst (platforms (registry_searchAll scrapers q m)) = map fst scrapers"
    by (simp add: pl searchPromise_keys)
  have d: "distinct (map fst (map (searchPromise q (internalLimit m)) scrapers))"
    using assms(1) by (simp add: searchPromise_keys)
  have "searchPromise q (internalLimit m) (name, search) \<in> set (map (searchPromise q (internalLimit m)) scrapers)"
    using assms(2) by simp
  then have "(name, \<lparr> success = False, checked = True, count = 0, results = [],
                  error = Some (message err), rejectedCount = None \<rparr>)
             \<in> set (map (searchPromise q (internalLimit m)) scrapers)"
    by (simp add: searchPromise_def assms(3))
  with d show entry: "map_of (platforms (registry_searchAll scrapers q m)) name =
           Some \<lparr> success = False, checked = True, count = 0, results = [],
                  error = Some (message err), rejectedCount = None \<rparr>"
    unfolding pl by (rule map_of_is_SomeI)
  show "\<exists>entry msg. map_of (platforms (registry_searchAll scrapers q m)) name = Some entry \<and>
            \<not> success entry \<and> results entry = [] \<and> error entry = Some msg \<and> msg \<noteq> []"
    using assms(4) by (simp add: entry)
next
  fix other assume o: "other \<noteq> name"
  have "distinct (map fst (filter (\<lambda>e. fst e \<noteq> name) scrapers))"
    using assms(1) by (rule distinct_map_filter)
  then have "platforms (registry_searchAll (filter (\<lambda>e. fst e \<noteq> name) scrapers) q m) =
        map (searchPromise q (internalLimit m)) (filter (\<lambda>e. fst e \<noteq> name) scrapers)"
    by (rule registry_platforms)
  then show "map_of (platforms (registry_searchAll scrapers q m)) other =
            map_of (platforms (registry_searchAll (filter (\<lambda>e. fst e \<noteq> name) scrapers) q m)) other"
    using map_of_searchPromise_filter [OF o, of q "internalLimit m" scrapers]
    by (simp add: registry_platforms [OF assms(1)])
qed

lemma demo_names_distinct: "distinct (map fst demoRegistry)"
  by (simp add: demoRegistry_def char_defs)

text \<open>
  The theorem on three sources, the second of which reports a blocked response.
\<close>

theorem registry_isolates_failure_witness:
  "distinct (map fst demoRegistry) \<and>
   (js ''flipkart'', flipkartSearch) \<in> set demoRegistry \<and>
   flipkartSearch demoQuery (internalLimit 10) = Inl (blockedResponse (js ''Flipkart'')) \<and>
   message (blockedResponse (js ''Flipkart'')) = js ''Flipkart returned empty/blocked response'' \<and>
   message (blockedResponse (js ''Flipkart'')) \<noteq> [] \<and>
   map fst (platforms (registry_searchAll demoRegistry demoQuery 10)) = map fst demoRegistry \<and>
   map_of (platforms (registry_searchAll demoRegistry demoQuery 10)) (js ''flipkart'') = Some demoFailure \<and>
   map_of (platforms (registry_searchAll demoRegistry demoQuery 10)) (js ''amazon'') =
     map_of (platforms (registry_searchAll (filter (\<lambda>e. fst e \<noteq> js ''flipkart'') demoRegistry) demoQuery 10))
       (js ''amazon'')"
proof -
  have d: "distinct (map fst demoRegistry)" by (rule demo_names_distinct)
  have m: "(js ''flipkart'', flipkartSearch) \<in> set demoRegistry" by (simp add: demoRegistry_def)
  have b: "message (blockedResponse (js ''Flipkart'')) = js ''Flipkart returned empty/blocked response''"
    by (simp add: blockedResponse_def js_def)
  have f: "flipkartSearch demoQuery (internalLimit 10) = Inl (blockedResponse (js ''Flipkart''))"
    using b by (simp add: flipkartSearch_def blockedResponse_def)
  have n: "message (blockedResponse (js ''Flipkart'')) \<noteq> []"
    by (simp add: b js_empty_iff)
  have ne: "js ''amazon'' \<noteq> js ''flipkart''" by (simp add: char_defs)
  from registry_isolates_failure [OF d m f n] d m f b n ne show ?thesis
    by (simp add: demoFailure_def)
qed

section \<open>Relevance filtering and sorting\<close>

subsection \<open>Valid prices\<close>

lemma valid_price:
  assumes "\<not> invalidPrice pr"
  shows "\<exists>n. pr = Some n \<and> \<not> isNaN n \<and> js_ge n (Fin 100) \<and> js_lt (Fin 0) n"
proof (cases pr)
  case None
  with assms show ?thesis by (simp add: invalidPrice_def)
next
  case (Some n)
  with assms show ?thesis by (cases n) (auto simp: invalidPrice_def js_ge_def)
qed

lemma valid_price_number:
  "\<not> invalidPrice (price p) \<Longrightarrow> truthy (price p) \<and> \<not> isNaN (toNumber (price p))"
  using valid_price [of "price p"] by (auto simp: invalidPrice_def)

subsection \<open>Deduplication and ranking keep products of their input\<close>

lemma dedupStep_subset: "set (snd (dedupStep st p)) \<subseteq> insert p (set (snd st))"
proof (cases st)
  case (Pair seen deduplicated)
  show ?thesis
  proof (cases "firstDuplicate p seen 0")
    case None
    with Pair show ?thesis by (auto simp: dedupStep_def)
  next
    case (Some i)
    have "set (deduplicated[i := p]) \<subseteq> insert p (set deduplicated)"
      by (rule set_update_subset_insert)
    with Pair Some show ?thesis by (auto simp: dedupStep_def)
  qed
qed

lemma foldl_dedupStep_subset: "set (snd (foldl dedupStep st ps)) \<subseteq> set (snd st) \<union> set ps"
proof (induction ps arbitrary: st)
  case Nil
  show ?case by simp
next
  case (Cons p ps)
  have "set (snd (foldl dedupStep (dedupStep st p) ps)) \<subseteq> set (snd (dedupStep st p)) \<union> set ps"
    by (rule Cons.IH)
  with dedupStep_subset [of st p] show ?case by auto
qed

lemma deduplicateByWebsite_subset: "set (deduplicateByWebsite ps) \<subseteq> set ps"
  using foldl_dedupStep_subset [of "([], [])" ps] by (simp add: deduplicateByWebsite_def)

lemma filterAndRankProducts_subset: "set (filterAndRankProducts ps q m) \<subseteq> set ps"
proof
  fix p assume "p \<in> set (filterAndRankProducts ps q m)"
  then obtain item where item: "fst item = p"
    and "item \<in> set (slice0 (js_sort (\<lambda>a b. Fin (snd b - snd a))
                 (filter (\<lambda>item. \<not> snd item \<le> 0)
                    (map (\<lambda>p. (p, scoreRelevance q (titleOf p))) ps))) m)"
    by (auto simp: filterAndRankProducts_def split: if_splits)
  then have "item \<in> set (map (\<lambda>p. (p, scoreRelevance q (titleOf p))) ps)"
    using set_slice0 by (fastforce simp: js_sort_set)
  with item show "p \<in> set ps" by auto
qed

lemma filterAndRankProducts_length: "0 \<le> m \<Longrightarrow> length (filterAndRankProducts ps q m) \<le> nat m"
  by (simp add: filterAndRankProducts_def length_slice0)

lemma finalResultsOf_valid: "p \<in> set (finalResultsOf q m raw) \<Longrightarrow> p \<in> set raw \<and> \<not> invalidPrice (price p)"
proof -
  assume "p \<in> set (finalResultsOf q m raw)"
  then have "p \<in> set (filterAndRankProducts (deduplicateByWebsite (filter (\<lambda>p. \<not> invalidPrice (price p)) raw)) q m)"
    by (auto simp: finalResultsOf_def dest: in_set_takeD)
  then have "p \<in> set (filter (\<lambda>p. \<not> invalidPrice (price p)) raw)"
    using filterAndRankProducts_subset deduplicateByWebsite_subset by blast
  then show ?thesis by simp
qed

lemma finalResultsOf_length: "length (finalResultsOf q m raw) \<le> 5"
  by (simp add: finalResultsOf_def)

lemma finalResultsOf_limit: "0 \<le> m \<Longrightarrow> length (finalResultsOf q m raw) \<le> nat m"
proof -
  assume "0 \<le> m"
  then have "length (filterAndRankProducts
                (deduplicateByWebsite (filter (\<lambda>p. \<not> invalidPrice (price p)) raw)) q m) \<le> nat m"
    by (rule filterAndRankProducts_length)
  then show ?thesis by (simp add: finalResultsOf_def)
qed

subsection \<open>The result, platform by platform\<close>

lemma filterStep_kept:
  "keptPlatforms (filterStep q m st entry) =
     keptPlatforms st @ (if allowed entry then [rewritten q m entry] else [])"
  by (cases entry) (simp add: filterStep_def allowed_def rewritten_def Let_def)

lemma foldl_filterStep_kept:
  "keptPlatforms (foldl (filterStep q m) st es) =
     keptPlatforms st @ map (rewritten q m) (filter allowed es)"
  by (induction es arbitrary: st) (simp_all add: filterStep_kept)

lemma applyRelevanceFilter_platforms:
  "platforms (applyRelevanceFilter agg q m) = map (rewritten q m) (filter allowed (platforms agg))"
  by (simp add: applyRelevanceFilter_def Let_def foldl_filterStep_kept)

lemma applySorting_platforms:
  "platforms (applySorting agg) =
     map (\<lambda>(n, d). (n, if results d \<noteq> [] then d\<lparr>results := js_sort compareProducts (results d)\<rparr> else d))
       (platforms agg)"
  by (simp add: applySorting_def Let_def)

lemma applySorting_entry:
  assumes "(n, d) \<in> set (platforms (applySorting agg))"
  shows "\<exists>d0. (n, d0) \<in> set (platforms agg) \<and> set (results d) = set (results d0) \<and>
              length (results d) = length (results d0)"
proof -
  from assms obtain d0 where d0: "(n, d0) \<in> set (platforms agg)"
    and d: "d = (if results d0 \<noteq> [] then d0\<lparr>results := js_sort compareProducts (results d0)\<rparr> else d0)"
    by (auto simp: applySorting_platforms)
  from d have "set (results d) = set (results d0) \<and> length (results d) = length (results d0)"
    by (simp add: js_sort_set js_sort_length)
  with d0 show ?thesis by blast
qed

lemma searchAll_entry:
  assumes "(n, d) \<in> set (platforms (searchAll scrapers q m))"
  shows "\<exists>raw. set (results d) = set (finalResultsOf q m raw) \<and>
               length (results d) = length (finalResultsOf q m raw)"
proof -
  from assms obtain d1 where d1: "(n, d1) \<in> set (platforms (applyRelevanceFilter (registry_searchAll scrapers q m) q m))"
    and eq: "set (results d) = set (results d1)" "length (results d) = length (results d1)"
    unfolding searchAll_def using applySorting_entry by blast
  from d1 obtain e where "(n, d1) = rewritten q m e"
    by (auto simp: applyRelevanceFilter_platforms)
  then have "results d1 = finalResultsOf q m (results (snd e))"
    by (simp add: rewritten_def)
  with eq show ?thesis by auto
qed

subsection \<open>Three sources answering one query\<close>

lemma demoProduct_fields:
  "title (demoProduct site t pr) = js t"
  "product_name (demoProduct site t pr) = js t"
  "price (demoProduct site t pr) = pr"
  "platform (demoProduct site t pr) = js site"
  "source (demoProduct site t pr) = js site"
  "availability (demoProduct site t pr) = True"
  by (simp_all add: demoProduct_def)

lemma titleOf_demoProduct: "t \<noteq> [] \<Longrightarrow> titleOf (demoProduct site t pr) = js t"
  by (simp add: titleOf_def demoProduct_fields js_empty_iff)

lemma allowed_demo:
  "toLowerCase (js ''amazon'') \<in> set allowedWebsites"
  "toLowerCase (js ''flipkart'') \<in> set allowedWebsites"
  "toLowerCase (js ''myntra'') \<in> set allowedWebsites"
  by (simp_all add: allowedWebsites_def toLowerCase_def lowerUnit_def char_defs)

lemma final_amazon: "1 \<le> m \<Longrightarrow> finalResultsOf demoQuery m [siliconeCase, iphoneAmazon] = [iphoneAmazon]"
  by (simp add: finalResultsOf_def filterAndRankProducts_def deduplicateByWebsite_def invalidPrice_def
      siliconeCase_def iphoneAmazon_def demoProduct_fields titleOf_demoProduct demoQuery_def
      score_phone js_sort_def slice0_singleton)

lemma final_myntra: "1 \<le> m \<Longrightarrow> finalResultsOf demoQuery m [iphoneMyntra] = [iphoneMyntra]"
  by (simp add: finalResultsOf_def filterAndRankProducts_def deduplicateByWebsite_def invalidPrice_def
      iphoneMyntra_def demoProduct_fields titleOf_demoProduct demoQuery_def
      score_phone js_sort_def slice0_singleton)

lemma final_empty: "finalResultsOf q m [] = []"
  by (simp add: finalResultsOf_def filterAndRankProducts_def deduplicateByWebsite_def)

lemma demo_registry_platforms:
  "platforms (registry_searchAll demoRegistry demoQuery m) =
     [(js ''amazon'', \<lparr> success = True, checked = True, count = 2, results = [siliconeCase, iphoneAmazon],
                        error = None, rejectedCount = None \<rparr>),
      (js ''flipkart'', demoFailure),
      (js ''myntra'', \<lparr> success = True, checked = True, count = 1, results = [iphoneMyntra],
                        error = None, rejectedCount = None \<rparr>)]"
  unfolding registry_platforms [OF demo_names_distinct]
  by (simp add: demoRegistry_def searchPromise_def
      amazonSearch_def flipkartSearch_def myntraSearch_def demoFailure_def)

lemma demo_filtered_platforms:
  "1 \<le> m \<Longrightarrow>
   platforms (applyRelevanceFilter (registry_searchAll demoRegistry demoQuery m) demoQuery m) =
     [(js ''amazon'', demoAmazonEntry),
      (js ''flipkart'', demoFailure\<lparr>rejectedCount := Some 0\<rparr>),
      (js ''myntra'', \<lparr> success = True, checked = True, count = 1, results = [iphoneMyntra],
                        error = None, rejectedCount = Some 0 \<rparr>)]"
  by (simp add: applyRelevanceFilter_platforms demo_registry_platforms allowed_def allowed_demo
      rewritten_def final_amazon final_myntra final_empty demoFailure_def demoAmazonEntry_def)

lemma demo_platforms:
  "1 \<le> m \<Longrightarrow>
   platforms (searchAll demoRegistry demoQuery m) =
     [(js ''amazon'', demoAmazonEntry),
      (js ''flipkart'', demoFailure\<lparr>rejectedCount := Some 0\<rparr>),
      (js ''myntra'', \<lparr> success = True, checked = True, count = 1, results = [iphoneMyntra],
                        error = None, rejectedCount = Some 0 \<rparr>)]"
  by (simp add: searchAll_def applySorting_platforms demo_filtered_platforms js_sort_def demoFailure_def
      demoAmazonEntry_def)

lemma demo_retained: "retained (searchAll demoRegistry demoQuery 10) = [iphoneAmazon, iphoneMyntra]"
  by (simp add: retained_def demo_platforms demoFailure_def demoAmazonEntry_def)

subsection \<open>One source returning two variants\<close>

lemmas title_defs = normalizeTitle_def toLowerCase_def lowerUnit_def trim_def collapseSpaces_def fillerWords_def

lemma variant_titles:
  "titleOf variantBlack = js ''Apple iPhone 15 (Black, 128 GB)''"
  "titleOf variantBlue = js ''Apple iPhone 15 (Blue, 128 GB)''"
  by (simp_all add: variantBlack_def variantBlue_def titleOf_demoProduct)

lemma variant_scores:
  "scoreRelevance (js ''iPhone 15'') (js ''Apple iPhone 15 (Black, 128 GB)'') = 14"
  "scoreRelevance (js ''iPhone 15'') (js ''Apple iPhone 15 (Blue, 128 GB)'') = 14"
  by (simp_all add: scoreRelevance_def foundPhrase_def text_defs word_lists char_defs Let_def)

lemma variant_norms:
  "normalizeTitle (js ''Apple iPhone 15 (Black, 128 GB)'') = js ''apple iphone 15 black 128 gb''"
  "normalizeTitle (js ''Apple iPhone 15 (Blue, 128 GB)'') = js ''apple iphone 15 blue 128 gb''"
  by (simp_all add: title_defs char_defs)

lemma variant_words:
  "significantWords (js ''apple iphone 15 black 128 gb'') = map js [''apple'', ''iphone'', ''black'', ''128'']"
  "significantWords (js ''apple iphone 15 blue 128 gb'') = map js [''apple'', ''iphone'', ''blue'', ''128'']"
  by (simp_all add: significantWords_def char_defs)

lemma variant_similarity:
  "calculateTitleSimilarity (js ''Apple iPhone 15 (Blue, 128 GB)'') (js ''Apple iPhone 15 (Black, 128 GB)'') = 75"
  by (simp add: calculateTitleSimilarity_def variant_norms variant_words Let_def js_inject)

lemma variant_brands:
  "extractBrand (js ''Apple iPhone 15 (Black, 128 GB)'') = Some (js ''apple'')"
  "extractBrand (js ''Apple iPhone 15 (Blue, 128 GB)'') = Some (js ''apple'')"
  unfolding extractBrand_def variant_norms
  by (simp_all add: brandMap_def char_defs)

lemma variant_colors:
  "extractColor (js ''Apple iPhone 15 (Black, 128 GB)'') = Some (js ''black'')"
  "extractColor (js ''Apple iPhone 15 (Blue, 128 GB)'') = Some (js ''blue'')"
  by (simp_all add: extractColor_def colorAt_def knownColors_def toLowerCase_def lowerUnit_def trim_def
      char_defs)

lemma js_neq_colors: "js ''blue'' \<noteq> js ''black''" "js ''samsung'' \<noteq> []"
  by (simp_all add: char_defs)

lemma variants_differ: "\<not> doProductsMatch variantBlue variantBlack"
  by (simp add: doProductsMatch_def variant_titles variant_similarity variant_brands variant_colors
      bothDiffer_def js_neq_colors js_empty_iff)

lemma variant_dedup: "deduplicateByWebsite [variantBlack, variantBlue] = [variantBlack, variantBlue]"
  by (simp add: deduplicateByWebsite_def dedupStep_def variants_differ)

lemma variant_valid: "\<not> invalidPrice (price variantBlack)" "\<not> invalidPrice (price variantBlue)"
  by (simp_all add: invalidPrice_def variantBlack_def variantBlue_def demoProduct_fields)

lemma final_variants_strict: "finalResultsOf demoQuery 1 [variantBlack, variantBlue] = [variantBlack]"
  by (simp add: finalResultsOf_def variant_valid variant_dedup filterAndRankProducts_def variant_titles
      demoQuery_def variant_scores js_sort_def slice0_def)

lemma variant_registry_platforms:
  "platforms (registry_searchAll variantRegistry demoQuery 1) =
     [(js ''flipkart'', \<lparr> success = True, checked = True, count = 2, results = [variantBlack, variantBlue],
                          error = None, rejectedCount = None \<rparr>)]"
  by (simp add: registry_searchAll_def aggregateStep_def objSet_def searchPromise_def variantRegistry_def
      variantSearch_def)

lemma variant_platforms_strict:
  "platforms (searchAll variantRegistry demoQuery 1) = [(js ''flipkart'', strictEntry)]"
  by (simp add: searchAll_def applySorting_platforms applyRelevanceFilter_platforms
      variant_registry_platforms allowed_def allowed_demo rewritten_def final_variants_strict
      js_sort_def strictEntry_def)

subsection \<open>Prices and sizes of the final result\<close>

text \<open>
  Claim C1.  Every product of every platform entry of the result of \<open>searchAll\<close> has a
  price that is a number, at least 100 and greater than 0; a product whose price is
  missing, \<open>null\<close>, zero, NaN or below 100 is not retained.
\<close>

theorem searchAll_prices_valid:
  assumes "(n, d) \<in> set (platforms (searchAll scrapers q m))" and "p \<in> set (results d)"
  shows "\<exists>v. price p = Some v \<and> js_ge v (Fin 100) \<and> js_lt (Fin 0) v"
proof -
  from searchAll_entry [OF assms(1)] assms(2) obtain raw where "p \<in> set (finalResultsOf q m raw)"
    by auto
  then have "\<not> invalidPrice (price p)" by (simp add: finalResultsOf_valid)
  then show ?thesis using valid_price by blast
qed

text \<open>
  The theorem on the three sources: the phone of the first source is retained, while the
  accessory priced 50 that the first source returned is not.
\<close>

theorem searchAll_prices_valid_witness:
  "(js ''amazon'', demoAmazonEntry) \<in> set (platforms (searchAll demoRegistry demoQuery 10)) \<and>
   iphoneAmazon \<in> set (results demoAmazonEntry) \<and>
   (\<exists>v. price iphoneAmazon = Some v \<and> js_ge v (Fin 100) \<and> js_lt (Fin 0) v) \<and>
   siliconeCase \<in> set (results (snd (hd (platforms (registry_searchAll demoRegistry demoQuery 10))))) \<and>
   price siliconeCase = Some (Fin 50) \<and>
   siliconeCase \<notin> set (results demoAmazonEntry)"
proof -
  have e: "(js ''amazon'', demoAmazonEntry) \<in> set (platforms (searchAll demoRegistry demoQuery 10))"
    by (simp add: demo_platforms)
  have p: "iphoneAmazon \<in> set (results demoAmazonEntry)"
    by (simp add: demoAmazonEntry_def)
  have c: "siliconeCase \<in> set (results (snd (hd (platforms (registry_searchAll demoRegistry demoQuery 10)))))"
    by (simp add: demo_registry_platforms)
  have "price siliconeCase \<noteq> price iphoneAmazon"
    by (simp add: siliconeCase_def iphoneAmazon_def demoProduct_fields)
  then have n: "siliconeCase \<notin> set (results demoAmazonEntry)"
    by (auto simp: demoAmazonEntry_def)
  from searchAll_prices_valid [OF e p] e p c n show ?thesis
    by (simp add: siliconeCase_def demoProduct_fields)
qed

text \<open>
  Claim C6.  Every platform entry of the result of \<open>searchAll\<close> has at most 5 products,
  and at most \<open>maxResults\<close> products when the caller's limit is not negative: a caller
  who asks for one result per source, with the limit 1, gets at most one product per
  source.
\<close>

theorem searchAll_at_most_five:
  assumes "(n, d) \<in> set (platforms (searchAll scrapers q m))"
  shows "length (results d) \<le> 5 \<and> (0 \<le> m \<longrightarrow> length (results d) \<le> nat m)"
  using searchAll_entry [OF assms] finalResultsOf_length finalResultsOf_limit by auto

text \<open>
  The theorem with the limit 1 on a source that returns two relevant variants of a phone,
  which are not duplicates of each other: one of them is retained.
\<close>

theorem searchAll_at_most_five_witness:
  "(js ''flipkart'', strictEntry) \<in> set (platforms (searchAll variantRegistry demoQuery 1)) \<and>
   (0::int) \<le> 1 \<and>
   variantSearch demoQuery (internalLimit 1) = Inr [variantBlack, variantBlue] \<and>
   results strictEntry = [variantBlack] \<and>
   length (results strictEntry) \<le> 5 \<and> length (results strictEntry) \<le> nat 1"
proof -
  have e: "(js ''flipkart'', strictEntry) \<in> set (platforms (searchAll variantRegistry demoQuery 1))"
    by (simp add: variant_platforms_strict)
  from searchAll_at_most_five [OF e] e show ?thesis
    by (simp add: variantSearch_def strictEntry_def)
qed

subsection \<open>The lowest price\<close>

lemma lowestAmong_set: "set ps = set ps' \<Longrightarrow> lowestAmong l ps = lowestAmong l ps'"
  by (simp add: lowestAmong_def list_ex_iff list_all_iff)

lemma lowestOK_set: "set ps = set ps' \<Longrightarrow> lowestOK lo ps = lowestOK lo ps'"
proof -
  assume s: "set ps = set ps'"
  then have "(ps = []) = (ps' = [])" by (metis set_empty)
  with s lowestAmong_set [OF s] show ?thesis by (simp add: lowestOK_def split: option.splits)
qed

lemma trackLowest_step:
  assumes p: "\<not> invalidPrice (price p)"
    and R: "\<forall>r\<in>set R. \<not> invalidPrice (price r)"
    and lo: "lowestOK lo R"
  shows "lowestOK (trackLowest n lo p) (R @ [p])"
proof (cases lo)
  case None
  with p valid_price_number [OF p] lo show ?thesis
    by (simp add: trackLowest_def lowestOK_def lowestAmong_def js_le_refl)
next
  case (Some l)
  with lo have l: "R \<noteq> []" "\<exists>r\<in>set R. price l = price r"
    "\<forall>r\<in>set R. js_le (toNumber (price l)) (toNumber (price r))"
    by (auto simp: lowestOK_def lowestAmong_def list_ex_iff list_all_iff)
  from l(2) R have nl: "\<not> isNaN (toNumber (price l))"
    using valid_price_number by metis
  note np = valid_price_number [OF p]
  show ?thesis
  proof (cases "js_lt (toNumber (price p)) (toNumber (price l))")
    case True
    then have "\<forall>r\<in>set R. js_le (toNumber (price p)) (toNumber (price r))"
      using l(3) js_lt_imp_le js_le_trans by blast
    with True Some np show ?thesis
      by (simp add: trackLowest_def lowestOK_def lowestAmong_def list_ex_iff list_all_iff js_le_refl)
  next
    case False
    then have "js_le (toNumber (price l)) (toNumber (price p))"
      using np nl by (simp add: js_not_lt)
    with False Some l show ?thesis
      by (auto simp: trackLowest_def lowestOK_def lowestAmong_def list_ex_iff list_all_iff)
  qed
qed

lemma foldl_trackLowest:
  assumes "\<forall>p\<in>set ps. \<not> invalidPrice (price p)"
    and "\<forall>r\<in>set R. \<not> invalidPrice (price r)"
    and "lowestOK lo R"
  shows "lowestOK (foldl (trackLowest n) lo ps) (R @ ps)"
  using assms
proof (induction ps arbitrary: lo R)
  case Nil
  then show ?case by simp
next
  case (Cons p ps)
  have "lowestOK (trackLowest n lo p) (R @ [p])"
    using Cons.prems by (intro trackLowest_step) auto
  moreover have "\<forall>r\<in>set (R @ [p]). \<not> invalidPrice (price r)"
    using Cons.prems by auto
  ultimately have "lowestOK (foldl (trackLowest n) (trackLowest n lo p) ps) ((R @ [p]) @ ps)"
    using Cons.prems by (intro Cons.IH) auto
  then show ?case by simp
qed

lemma filterStep_lowest:
  assumes "\<forall>r\<in>set (keptProducts st). \<not> invalidPrice (price r)"
    and "lowestOK (lowest st) (keptProducts st)"
  shows "(\<forall>r\<in>set (keptProducts (filterStep q m st e)). \<not> invalidPrice (price r)) \<and>
         lowestOK (lowest (filterStep q m st e)) (keptProducts (filterStep q m st e))"
proof (cases "allowed e")
  case False
  then have "filterStep q m st e = st"
    by (cases e) (simp add: filterStep_def allowed_def)
  with assms show ?thesis by simp
next
  case True
  define fr where "fr = finalResultsOf q m (results (snd e))"
  have kp: "keptProducts (filterStep q m st e) = keptProducts st @ fr"
    using True by (simp add: keptProducts_def filterStep_kept rewritten_def fr_def)
  have lw: "lowest (filterStep q m st e) = foldl (trackLowest (fst e)) (lowest st) fr"
    using True by (cases e) (simp add: filterStep_def allowed_def fr_def Let_def)
  have v: "\<forall>p\<in>set fr. \<not> invalidPrice (price p)"
    by (simp add: fr_def finalResultsOf_valid)
  from foldl_trackLowest [OF v assms] v assms(1) show ?thesis
    by (auto simp: kp lw)
qed

lemma foldl_filterStep_lowest:
  assumes "\<forall>r\<in>set (keptProducts st). \<not> invalidPrice (price r)"
    and "lowestOK (lowest st) (keptProducts st)"
  shows "lowestOK (lowest (foldl (filterStep q m) st es)) (keptProducts (foldl (filterStep q m) st es))"
  using assms
proof (induction es arbitrary: st)
  case Nil
  then show ?case by simp
next
  case (Cons e es)
  from filterStep_lowest [OF Cons.prems, of q m e] show ?case
    by (auto intro: Cons.IH)
qed

lemma applyRelevanceFilter_lowest: "lowestPriceCorrect (applyRelevanceFilter agg q m)"
proof -
  define st0 where "st0 = \<lparr> keptPlatforms = [], total = 0, lowest = None \<rparr>"
  have "lowestOK (lowest (foldl (filterStep q m) st0 (platforms agg)))
          (keptProducts (foldl (filterStep q m) st0 (platforms agg)))"
    by (rule foldl_filterStep_lowest) (simp_all add: st0_def keptProducts_def lowestOK_def)
  then show ?thesis
    by (simp add: lowestPriceCorrect_def applyRelevanceFilter_def retained_def keptProducts_def
        Let_def st0_def)
qed

lemma sorted_entry_results:
  "set (results (if results d \<noteq> [] then d\<lparr>results := js_sort compareProducts (results d)\<rparr> else d))
     = set (results d)"
  by (simp add: js_sort_set)

lemma applySorting_retained: "set (retained (applySorting agg)) = set (retained agg)"
proof -
  have "set (concat (map (\<lambda>(n, d). results d)
           (map (\<lambda>(n, d). (n, if results d \<noteq> [] then d\<lparr>results := js_sort compareProducts (results d)\<rparr> else d)) es)))
        = set (concat (map (\<lambda>(n, d). results d) es))" for es :: "(jstring \<times> platformData) list"
  proof (induction es)
    case Nil
    show ?case by simp
  next
    case (Cons e es)
    obtain n d where e: "e = (n, d)" by (cases e)
    show ?case using Cons.IH sorted_entry_results [of d] unfolding e
      by (simp del: set_concat)
  qed
  then show ?thesis by (simp add: retained_def applySorting_platforms)
qed

lemma applySorting_lowest: "lowestPrice (applySorting agg) = lowestPrice agg"
  by (simp add: applySorting_def Let_def)

text \<open>
  Claim C5.  After \<open>applyRelevanceFilter\<close>, on any aggregated result, and so in the
  result of \<open>searchAll\<close>: when at least one product is retained over all platforms,
  \<open>lowestPrice\<close> is present, its price is the price of a retained product and is at most
  the price of every retained product; when no product is retained, \<open>lowestPrice\<close> is
  \<open>null\<close>.
\<close>

theorem lowestPrice_is_minimum:
  "lowestPriceCorrect (applyRelevanceFilter agg q m) \<and> lowestPriceCorrect (searchAll scrapers q m)"
proof
  show "lowestPriceCorrect (applyRelevanceFilter agg q m)"
    by (rule applyRelevanceFilter_lowest)
  have "lowestPriceCorrect (applyRelevanceFilter (registry_searchAll scrapers q m) q m)"
    by (rule applyRelevanceFilter_lowest)
  then show "lowestPriceCorrect (searchAll scrapers q m)"
    using lowestOK_set [OF applySorting_retained]
    by (simp add: lowestPriceCorrect_def searchAll_def applySorting_lowest)
qed

text \<open>
  The theorem on the three sources: two phones are retained and the lowest price is the
  one of the cheaper phone.
\<close>

theorem lowestPrice_is_minimum_witness:
  "retained (searchAll demoRegistry demoQuery 10) = [iphoneAmazon, iphoneMyntra] \<and>
   map_option price (lowestPrice (searchAll demoRegistry demoQuery 10)) = Some (Some (Fin 74999))"
proof -
  have "lowestPriceCorrect (searchAll demoRegistry demoQuery 10)"
    using lowestPrice_is_minimum [of "registry_searchAll demoRegistry demoQuery 10" demoQuery 10 demoRegistry]
    by simp
  then obtain l where "lowestPrice (searchAll demoRegistry demoQuery 10) = Some l"
    and "lowestAmong l [iphoneAmazon, iphoneMyntra]"
    by (auto simp: lowestPriceCorrect_def lowestOK_def demo_retained split: option.splits)
  then show ?thesis
    by (auto simp: lowestAmong_def demo_retained iphoneAmazon_def iphoneMyntra_def demoProduct_fields)
qed

section \<open>Deduplication applied twice\<close>

lemma norm_black: "normalizeTitle (js ''Samsung Galaxy S24 Ultra (Black)'') = js ''samsung galaxy s24 ultra black''"
  by (simp add: title_defs char_defs)

lemma norm_blue: "normalizeTitle (js ''Samsung Galaxy S24 Ultra (Blue)'') = js ''samsung galaxy s24 ultra blue''"
  by (simp add: title_defs char_defs)

lemma norm_plain: "normalizeTitle (js ''Samsung Galaxy S24 Ultra'') = js ''samsung galaxy s24 ultra''"
  by (simp add: title_defs char_defs)

lemma words_black:
  "significantWords (js ''samsung galaxy s24 ultra black'') = map js [''samsung'', ''galaxy'', ''s24'', ''ultra'', ''black'']"
  by (simp add: significantWords_def char_defs)

lemma words_blue:
  "significantWords (js ''samsung galaxy s24 ultra blue'') = map js [''samsung'', ''galaxy'', ''s24'', ''ultra'', ''blue'']"
  by (simp add: significantWords_def char_defs)

lemma words_plain:
  "significantWords (js ''samsung galaxy s24 ultra'') = map js [''samsung'', ''galaxy'', ''s24'', ''ultra'']"
  by (simp add: significantWords_def char_defs)

lemma similarity_blue_black:
  "calculateTitleSimilarity (js ''Samsung Galaxy S24 Ultra (Blue)'') (js ''Samsung Galaxy S24 Ultra (Black)'') = 80"
  by (simp add: calculateTitleSimilarity_def norm_black norm_blue words_black words_blue Let_def js_inject)

lemma similarity_plain_black:
  "calculateTitleSimilarity (js ''Samsung Galaxy S24 Ultra'') (js ''Samsung Galaxy S24 Ultra (Black)'') = 80"
  by (simp add: calculateTitleSimilarity_def norm_black norm_plain words_black words_plain Let_def js_inject)

lemma similarity_blue_plain:
  "calculateTitleSimilarity (js ''Samsung Galaxy S24 Ultra (Blue)'') (js ''Samsung Galaxy S24 Ultra'') = 80"
  by (simp add: calculateTitleSimilarity_def norm_blue norm_plain words_blue words_plain Let_def js_inject)

lemma brand_galaxy:
  "extractBrand (js ''Samsung Galaxy S24 Ultra (Black)'') = Some (js ''samsung'')"
  "extractBrand (js ''Samsung Galaxy S24 Ultra (Blue)'') = Some (js ''samsung'')"
  "extractBrand (js ''Samsung Galaxy S24 Ultra'') = Some (js ''samsung'')"
  unfolding extractBrand_def norm_black norm_blue norm_plain
  by (simp_all add: brandMap_def char_defs)

lemma color_galaxy:
  "extractColor (js ''Samsung Galaxy S24 Ultra (Black)'') = Some (js ''black'')"
  "extractColor (js ''Samsung Galaxy S24 Ultra (Blue)'') = Some (js ''blue'')"
  "extractColor (js ''Samsung Galaxy S24 Ultra'') = None"
  by (simp_all add: extractColor_def colorAt_def knownColors_def toLowerCase_def lowerUnit_def trim_def
      char_defs)

lemma storage_galaxy:
  "extractStorage (js ''Samsung Galaxy S24 Ultra (Black)'') = None"
  "extractStorage (js ''Samsung Galaxy S24 Ultra (Blue)'') = None"
  "extractStorage (js ''Samsung Galaxy S24 Ultra'') = None"
  by (simp_all add: extractStorage_def storageAt_def isUnit_def char_defs)

lemma model_galaxy:
  "extractModel (js ''Samsung Galaxy S24 Ultra (Black)'') = Some (js ''samsung'')"
  "extractModel (js ''Samsung Galaxy S24 Ultra (Blue)'') = Some (js ''samsung'')"
  "extractModel (js ''Samsung Galaxy S24 Ultra'') = Some (js ''samsung'')"
  unfolding extractModel_def norm_black norm_blue norm_plain
  by (simp_all add: modelAt_def modelSuffixes_def wordFollows_def trim_def char_defs)

lemma galaxy_titles:
  "titleOf galaxyBlack = js ''Samsung Galaxy S24 Ultra (Black)''"
  "titleOf galaxyBlue = js ''Samsung Galaxy S24 Ultra (Blue)''"
  "titleOf galaxyPlain = js ''Samsung Galaxy S24 Ultra''"
  by (simp_all add: galaxyBlack_def galaxyBlue_def galaxyPlain_def titleOf_demoProduct)

lemma galaxy_matches:
  "\<not> doProductsMatch galaxyBlue galaxyBlack"
  "doProductsMatch galaxyPlain galaxyBlack"
  "doProductsMatch galaxyBlue galaxyPlain"
  by (simp_all add: doProductsMatch_def galaxy_titles similarity_blue_black similarity_plain_black
      similarity_blue_plain brand_galaxy color_galaxy storage_galaxy model_galaxy bothDiffer_def
      js_neq_colors js_empty_iff)

lemma galaxy_cheaper:
  "cheaper galaxyPlain galaxyBlack" "\<not> cheaper galaxyBlue galaxyPlain"
  by (simp_all add: cheaper_def galaxyBlack_def galaxyBlue_def galaxyPlain_def demoProduct_fields)

lemma dedup_first: "deduplicateByWebsite [galaxyBlack, galaxyBlue, galaxyPlain] = [galaxyPlain, galaxyBlue]"
  by (simp add: deduplicateByWebsite_def dedupStep_def galaxy_matches galaxy_cheaper)

lemma dedup_second: "deduplicateByWebsite [galaxyPlain, galaxyBlue] = [galaxyPlain]"
  by (simp add: deduplicateByWebsite_def dedupStep_def galaxy_matches galaxy_cheaper)

text \<open>
  Claim C7.  \<open>deduplicateByWebsite\<close> is not idempotent.  On a listing with a black and a
  blue variant of a phone followed by a cheaper entry that names no colour, the entry
  without colour replaces the black variant, which it matches; it also matches the blue
  variant, which stays beside it.  The output thus holds two products that
  \<open>doProductsMatch\<close> takes for duplicates, and a second pass removes one of them.
\<close>

theorem deduplicateByWebsite_twice:
  "deduplicateByWebsite [galaxyBlack, galaxyBlue, galaxyPlain] = [galaxyPlain, galaxyBlue] \<and>
   doProductsMatch galaxyBlue galaxyPlain \<and>
   deduplicateByWebsite (deduplicateByWebsite [galaxyBlack, galaxyBlue, galaxyPlain]) = [galaxyPlain] \<and>
   deduplicateByWebsite (deduplicateByWebsite [galaxyBlack, galaxyBlue, galaxyPlain]) \<noteq>
     deduplicateByWebsite [galaxyBlack, galaxyBlue, galaxyPlain]"
  by (simp add: dedup_first dedup_second galaxy_matches)

end
